theory Spec2Isabelle
  imports Main "HOL-Library.List_Lexorder" "HOL-Library.AList" "HOL-Library.Multiset"
begin

section \<open>Python text\<close>

text \<open>
  A Python \<open>str\<close> is a sequence of Unicode code points, so a string is modelled as a
  list of code points (natural numbers), not as a list of bytes: \<open>REBOOT_FILE_DEFAULT\<close>
  holds an en dash (U+2013, code point 8211), and \<open>str.strip\<close> and \<open>str.splitlines\<close>
  look at code points. \<open>py\<close> turns an ASCII literal into its code points.
\<close>

type_synonym pystr = "nat list"

definition py :: "string \<Rightarrow> pystr" where
  "py s = map of_char s"

text \<open>
  \<open>str.isspace\<close> of one code point: the characters that \<open>str.strip()\<close> removes.
\<close>

definition isspace :: "nat \<Rightarrow> bool" where
  "isspace c \<longleftrightarrow> c \<in> set [9, 10, 11, 12, 13, 28, 29, 30, 31, 32, 133, 160, 5760,
       8192, 8193, 8194, 8195, 8196, 8197, 8198, 8199, 8200, 8201, 8202,
       8232, 8233, 8239, 8287, 12288]"

definition strip :: "pystr \<Rightarrow> pystr" where
  "strip s = rev (dropWhile isspace (rev (dropWhile isspace s)))"

text \<open>
  \<open>str.lower\<close>, written out for the ASCII letters. The source only tests the lowered
  line with \<open>startswith\<close> against the ASCII words \<open>inventory\<close> and \<open>deletion\<close>; no
  code point outside ASCII lowers to a string that can stand inside these two words,
  so the test is decided by the ASCII letters alone.
\<close>

definition lower :: "pystr \<Rightarrow> pystr" where
  "lower s = map (\<lambda>c. if 65 \<le> c \<and> c \<le> 90 then c + 32 else c) s"

definition startswith :: "pystr \<Rightarrow> pystr \<Rightarrow> bool" where
  "startswith s p \<longleftrightarrow> take (length p) s = p"

text \<open>
  Files are opened in text mode with universal newlines: on reading, \<open>\r\n\<close> and a
  lone \<open>\r\<close> both become \<open>\n\<close>.
\<close>

fun translate_newlines :: "pystr \<Rightarrow> pystr" where
  "translate_newlines [] = []"
| "translate_newlines [c] = [if c = 13 then 10 else c]"
| "translate_newlines (c # d # ds) =
     (if c = 13 then (if d = 10 then 10 # translate_newlines ds
                      else 10 # translate_newlines (d # ds))
      else c # translate_newlines (d # ds))"

text \<open>
  \<open>for line in f\<close>: the lines of the translated text, each with its terminating
  \<open>\n\<close>; a last line without terminator is yielded as it is.
\<close>

fun lines_keepends :: "pystr \<Rightarrow> pystr \<Rightarrow> pystr list" where
  "lines_keepends cur [] = (if cur = [] then [] else [cur])"
| "lines_keepends cur (c # cs) =
     (if c = 10 then (cur @ [c]) # lines_keepends [] cs
      else lines_keepends (cur @ [c]) cs)"

definition file_lines :: "pystr \<Rightarrow> pystr list" where
  "file_lines text = lines_keepends [] (translate_newlines text)"

text \<open>
  \<open>str.splitlines()\<close>: the line boundaries are \<open>\n\<close>, \<open>\r\<close>, \<open>\r\n\<close>, \<open>\v\<close>, \<open>\f\<close>,
  the separators \<open>\x1c\<close>, \<open>\x1d\<close>, \<open>\x1e\<close>, \<open>\x85\<close>, U+2028 and U+2029; the boundaries
  are not part of the lines, and a final boundary opens no further line.
\<close>

definition linebreak :: "nat \<Rightarrow> bool" where
  "linebreak c \<longleftrightarrow> c \<in> set [10, 11, 12, 13, 28, 29, 30, 133, 8232, 8233]"

fun splitlines_from :: "pystr \<Rightarrow> pystr \<Rightarrow> pystr list" where
  "splitlines_from cur [] = (if cur = [] then [] else [cur])"
| "splitlines_from cur [c] = (if linebreak c then [cur] else [cur @ [c]])"
| "splitlines_from cur (c # d # ds) =
     (if c = 13 \<and> d = 10 then cur # splitlines_from [] ds
      else if linebreak c then cur # splitlines_from [] (d # ds)
      else splitlines_from (cur @ [c]) (d # ds))"

definition splitlines :: "pystr \<Rightarrow> pystr list" where
  "splitlines s = splitlines_from [] s"

text \<open>
  UTF-8 encodes every code point except the surrogates U+D800 to U+DFFF. A file name
  whose bytes are not valid UTF-8 reaches Python with such code points in it (the
  \<open>surrogateescape\<close> handler puts U+DC80 to U+DCFF for the bytes 128 to 255), and
  a text-mode \<open>write\<close> with \<open>encoding="utf-8"\<close> raises \<open>UnicodeEncodeError\<close> on
  it.
\<close>

definition encodable :: "pystr \<Rightarrow> bool" where
  "encodable s \<longleftrightarrow> list_all (\<lambda>c. c < 55296 \<or> 57343 < c) s"

text \<open>
  The number of bytes a name has in the file system: the length of its UTF-8 encoding,
  an escaped byte counting as the one byte it stands for.
\<close>

definition utf8_length :: "pystr \<Rightarrow> nat" where
  "utf8_length s =
     sum_list (map (\<lambda>c. if c < 128 then 1
                         else if c < 2048 then 2
                         else if 56448 \<le> c \<and> c \<le> 56575 then 1
                         else if c < 65536 then 3
                         else 4) s)"

section \<open>The world of the Import Job (usb\_manager.py)\<close>

text \<open>
  What goes wrong part-way through reading a file: its bytes stop being valid UTF-8 (a
  text-mode read raises \<open>UnicodeDecodeError\<close>, a binary copy does not look at them), or
  the device stops delivering them (\<open>OSError\<close>).
\<close>

datatype damage = Bad_encoding | Read_error

text \<open>
  A directory entry is a regular file with its text and whether this process may open it
  for reading; or a subdirectory, whose contents the model does not follow; or a regular
  file that can be opened but not read to its end: \<open>Damaged c k\<close> delivers the text
  \<open>c\<close> and then fails as \<open>k\<close> says.
\<close>

datatype node = RegFile (content: pystr) (readable: bool) | SubDir | Damaged pystr damage

text \<open>
  The outcome of \<open>subprocess.run\<close> on a command: the process ran and exited with a
  status, or it could not be started (\<open>subprocess.run\<close> raises \<open>OSError\<close>).
  Without \<open>check=True\<close> a non-zero exit status raises nothing.
\<close>

datatype proc = Exited nat | NotStarted

datatype announcement = Rebooting_now | New_books_added | Books_deleted

datatype command = Espeak announcement | Sync | Reboot

datatype vfile = Reboot_txt | Library_txt

text \<open>
  What the job does to the outside, in the order it does it: the commands it runs and the
  files of the volume it opens for writing.
\<close>

datatype action = Ran command | Wrote vfile

text \<open>
  The lines the job appends to the log file; the time stamp that prefixes each line and
  the text of a caught exception are left out. \<open>Copied\<close> and \<open>Deleted\<close> carry the
  file name that the line spells out.
\<close>

datatype logmsg =
    Copied pystr
  | Deleted pystr
  | Error_parsing_library
  | USB_mount_not_found
  | Updated_library
  | Error_writing_library
  | Created_default_Reboot
  | Error_creating_Reboot
  | Error_reading_Reboot
  | Restored_Reboot
  | Error_restoring_Reboot
  | Reboot_trigger_detected
  | Rebooting_now_msg
  | Reboot_error
  | Requested_deletions "pystr list"

datatype exn =
    FileNotFoundError | PermissionError | IsADirectoryError | CalledProcessError
  | OSError | UnicodeEncodeError | UnicodeDecodeError

text \<open>
  How the mounted volume takes writes: it takes them; or it is mounted read-only (a
  write-protected drive), so that no file can be created, opened for writing or
  removed; or files can be opened for writing and are truncated by that, but only the
  first \<open>n\<close> characters of what is written reach the file before the write fails (no
  space left, or the drive stops answering).
\<close>

datatype volume = Writable | Read_only | Room nat

text \<open>
  What a path denotes. \<open>safe_delete\<close> joins \<open>AUDIO_DIR\<close> with a line of library.txt,
  and the result need not lie in the content store: it can be nothing, an entry of the
  content store, one of the two protocol files of the volume, an entry of the volume's
  \<open>Add\<close> directory, the log file, a directory, a file somewhere else (which this
  process may remove or not), or a path that \<open>stat\<close> refuses with an error that
  \<open>Path.exists\<close> passes on (a name that is too long, a directory on the way that may
  not be searched).
\<close>

datatype place =
    Nowhere
  | Entry pystr
  | On_volume vfile
  | In_add pystr
  | Log
  | Directory
  | Other_file bool
  | Unreachable

text \<open>
  The state the job reads and writes. \<open>usb_mount\<close> is \<open>USB_MOUNT.exists()\<close>;
  \<open>volume\<close> says how the volume takes writes. \<open>reboot_txt\<close> and \<open>library_txt\<close> are
  the two protocol files of the volume, \<open>add_dir\<close> the listing of its \<open>Add\<close>
  directory and \<open>audio_dir\<close> the listing of the content store \<open>AUDIO_DIR\<close>, each
  \<open>None\<close> when absent; a listing is in the order \<open>iterdir()\<close> yields it.
  \<open>audio_writable\<close> says whether entries of the content store can be created,
  overwritten and removed, \<open>audio_listable\<close> whether \<open>iterdir()\<close> can list it,
  \<open>log_writable\<close> whether the log file can be opened for appending. \<open>espeak\<close>, \<open>sync_cmd\<close> and \<open>reboot_cmd\<close> are the outcomes the three
  external commands have when they are run. \<open>paths\<close> is the file system's answer for
  the paths that are not plain names of the content store: absolute paths, and relative
  ones with several components or with \<open>..\<close>.
\<close>

record world =
  usb_mount :: bool
  volume :: volume
  reboot_txt :: "node option"
  library_txt :: "node option"
  add_dir :: "(pystr \<times> node) list option"
  audio_dir :: "(pystr \<times> node) list option"
  audio_writable :: bool
  audio_listable :: bool
  log_writable :: bool
  log_file :: "logmsg list"
  espeak :: proc
  sync_cmd :: proc
  reboot_cmd :: proc
  paths :: "pystr \<Rightarrow> place"
  trace :: "action list"

text \<open>The volume takes every write.\<close>

definition usb_writable :: "world \<Rightarrow> bool" where
  "usb_writable w \<longleftrightarrow> volume w = Writable"

text \<open>
  A call either returns a value or raises; in both cases the effects it had so far
  stay in the state (the world here, the watcher's state further down).
\<close>

datatype ('a, 's) result = Return 'a 's | Raise exn 's

definition and_then :: "('a, 's) result \<Rightarrow> ('a \<Rightarrow> 's \<Rightarrow> ('b, 's) result) \<Rightarrow> ('b, 's) result" where
  "and_then r f = (case r of Return a w \<Rightarrow> f a w | Raise e w \<Rightarrow> Raise e w)"

definition except :: "('a, 's) result \<Rightarrow> ('s \<Rightarrow> ('a, 's) result) \<Rightarrow> ('a, 's) result" where
  "except r h = (case r of Return a w \<Rightarrow> Return a w | Raise e w \<Rightarrow> h w)"

subsection \<open>Files of the volume\<close>

definition vnode :: "vfile \<Rightarrow> world \<Rightarrow> node option" where
  "vnode f w = (case f of Reboot_txt \<Rightarrow> reboot_txt w | Library_txt \<Rightarrow> library_txt w)"

definition set_vnode :: "vfile \<Rightarrow> node option \<Rightarrow> world \<Rightarrow> world" where
  "set_vnode f n w =
     (case f of Reboot_txt \<Rightarrow> w\<lparr>reboot_txt := n\<rparr>
              | Library_txt \<Rightarrow> w\<lparr>library_txt := n\<rparr>)"

definition exists :: "vfile \<Rightarrow> world \<Rightarrow> bool" where
  "exists f w \<longleftrightarrow> usb_mount w \<and> vnode f w \<noteq> None"

definition error_of :: "damage \<Rightarrow> exn" where
  "error_of k = (case k of Bad_encoding \<Rightarrow> UnicodeDecodeError | Read_error \<Rightarrow> OSError)"

text \<open>
  \<open>Path.read_text\<close>: the whole text of a file of the volume, newlines translated; a
  file that cannot be read to its end yields nothing.
\<close>

definition read_text :: "vfile \<Rightarrow> world \<Rightarrow> (pystr, world) result" where
  "read_text f w =
     (if \<not> usb_mount w then Raise FileNotFoundError w
      else case vnode f w of
             None \<Rightarrow> Raise FileNotFoundError w
           | Some SubDir \<Rightarrow> Raise IsADirectoryError w
           | Some (RegFile c r) \<Rightarrow>
               if r then Return (translate_newlines c) w else Raise PermissionError w
           | Some (Damaged c k) \<Rightarrow> Raise (error_of k) w)"

text \<open>
  \<open>for line in f\<close> on a file of the volume opened for reading: the lines the loop gets
  and, when the iteration ends with an exception, that exception. A line is handed out
  once its terminator has been read, so a damaged file yields the complete lines of the
  text it delivers.
\<close>

definition lines_read :: "vfile \<Rightarrow> world \<Rightarrow> pystr list \<times> exn option" where
  "lines_read f w =
     (if \<not> usb_mount w then ([], Some FileNotFoundError)
      else case vnode f w of
             None \<Rightarrow> ([], Some FileNotFoundError)
           | Some SubDir \<Rightarrow> ([], Some IsADirectoryError)
           | Some (RegFile c r) \<Rightarrow> if r then (file_lines c, None) else ([], Some PermissionError)
           | Some (Damaged c k) \<Rightarrow>
               (filter (\<lambda>l. l \<noteq> [] \<and> last l = 10) (file_lines c), Some (error_of k)))"

text \<open>
  \<open>open(..., "w")\<close> on a file of the volume: the file is created, or truncated at once;
  an existing file keeps its permissions.
\<close>

definition open_write :: "vfile \<Rightarrow> world \<Rightarrow> (unit, world) result" where
  "open_write f w =
     (if \<not> usb_mount w then Raise FileNotFoundError w
      else if volume w = Read_only then Raise PermissionError w
      else case vnode f w of
             Some SubDir \<Rightarrow> Raise IsADirectoryError w
           | Some (RegFile c r) \<Rightarrow>
               Return () ((set_vnode f (Some (RegFile [] r)) w)\<lparr>trace := trace w @ [Wrote f]\<rparr>)
           | _ \<Rightarrow>
               Return () ((set_vnode f (Some (RegFile [] True)) w)\<lparr>trace := trace w @ [Wrote f]\<rparr>))"

text \<open>
  What was written to the open file reaches the volume, at the latest when the file is
  closed: all of it, or the part the volume takes, and then the write raises.
\<close>

definition store :: "vfile \<Rightarrow> pystr \<Rightarrow> world \<Rightarrow> (unit, world) result" where
  "store f text w =
     (let r = (case vnode f w of Some (RegFile c r) \<Rightarrow> r | _ \<Rightarrow> True)
      in case volume w of
           Room n \<Rightarrow>
             if n < length text then Raise OSError (set_vnode f (Some (RegFile (take n text) r)) w)
             else Return () (set_vnode f (Some (RegFile text r)) w)
         | _ \<Rightarrow> Return () (set_vnode f (Some (RegFile text r)) w))"

text \<open>
  \<open>Path.write_text(text, encoding="utf-8")\<close>: opens the file for writing, which
  truncates it, and writes the text; a text that cannot be encoded leaves the file
  empty.
\<close>

definition write_text :: "vfile \<Rightarrow> pystr \<Rightarrow> world \<Rightarrow> (unit, world) result" where
  "write_text f text w =
     and_then (open_write f w) (\<lambda>u w'.
       if encodable text then store f text w' else Raise UnicodeEncodeError w')"

text \<open>
  \<open>subprocess.run([...])\<close> without \<open>check=True\<close>: the call is recorded; it raises
  only when the command cannot be started.
\<close>

definition run :: "command \<Rightarrow> proc \<Rightarrow> world \<Rightarrow> (unit, world) result" where
  "run c p w =
     (let w' = w\<lparr>trace := trace w @ [Ran c]\<rparr>
      in case p of NotStarted \<Rightarrow> Raise FileNotFoundError w' | Exited n \<Rightarrow> Return () w')"

section \<open>usb\_manager.py\<close>

text \<open>
  The default text of Reboot.txt: two lines, the second one the en dash (8211), a space
  and \<open>Reboot\<close>; 34 is the double quote.
\<close>

definition REBOOT_FILE_DEFAULT :: pystr where
  "REBOOT_FILE_DEFAULT =
     py ''### Remove the '' @ [34, 8211, 34] @ py '' before Reboot to reboot the soundbox. ###''
     @ [10] @ [8211] @ py '' Reboot'' @ [10]"

text \<open>
  \<open>speak\<close>: runs \<open>espeak-ng\<close> and swallows every exception.
\<close>

definition speak :: "announcement \<Rightarrow> world \<Rightarrow> (unit, world) result" where
  "speak msg w = except (run (Espeak msg) (espeak w) w) (\<lambda>w'. Return () w')"

text \<open>
  The file name a log line spells out with \<open>str\<close>. The requested deletions are printed
  as the \<open>repr\<close> of a list, which escapes what cannot be printed, and the other lines
  are fixed ASCII or encodable text.
\<close>

definition spelled :: "logmsg \<Rightarrow> pystr" where
  "spelled msg = (case msg of Copied name \<Rightarrow> name | Deleted name \<Rightarrow> name | _ \<Rightarrow> [])"

text \<open>
  \<open>log\<close>: creates the log file's directory if needed, opens the file for appending with
  \<open>encoding="utf-8"\<close> and writes one line. Nothing is caught: when the file cannot be
  opened, or the line cannot be encoded, the exception leaves \<open>log\<close> and no line is
  added.
\<close>

definition log :: "logmsg \<Rightarrow> world \<Rightarrow> (unit, world) result" where
  "log msg w =
     (if \<not> log_writable w then Raise PermissionError w
      else if \<not> encodable (spelled msg) then Raise UnicodeEncodeError w
      else Return () (w\<lparr>log_file := log_file w @ [msg]\<rparr>))"

definition is_file :: "node \<Rightarrow> bool" where
  "is_file n = (case n of SubDir \<Rightarrow> False | _ \<Rightarrow> True)"

text \<open>
  \<open>safe_copy(src, dst_dir)\<close> with \<open>dst_dir = AUDIO_DIR\<close>: \<open>mkdir\<close> creates the
  content store when it is absent; \<open>shutil.copy2\<close> opens the source, then the
  destination, and raises when the source cannot be opened, when the name has more
  than 255 bytes, which the content store's file system refuses, or when the
  destination cannot be written; it overwrites a file of the same name, and copies into
  a subdirectory of that name (whose contents are not followed here). The copy is
  binary: a file that is not valid UTF-8 is copied as it is, and of a file whose reading
  breaks off the part read so far stays in the content store. The log line comes last
  and is not guarded.
\<close>

definition safe_copy :: "pystr \<Rightarrow> node \<Rightarrow> world \<Rightarrow> (unit, world) result" where
  "safe_copy name src w =
     (if audio_dir w = None \<and> \<not> audio_writable w then Raise PermissionError w
      else
        let d = (case audio_dir w of None \<Rightarrow> [] | Some d \<Rightarrow> d);
            w1 = w\<lparr>audio_dir := Some d\<rparr>;
            put = (\<lambda>n. case map_of d name of
                         Some SubDir \<Rightarrow> w1
                       | _ \<Rightarrow> w1\<lparr>audio_dir := Some (AList.update name n d)\<rparr>)
        in case src of
             SubDir \<Rightarrow> Raise IsADirectoryError w1
           | RegFile c r \<Rightarrow>
               if \<not> r then Raise PermissionError w1
               else if 255 < utf8_length name then Raise OSError w1
               else if \<not> audio_writable w then Raise PermissionError w1
               else log (Copied name) (put (RegFile c True))
           | Damaged c k \<Rightarrow>
               if 255 < utf8_length name then Raise OSError w1
               else if \<not> audio_writable w then Raise PermissionError w1
               else (case k of
                       Bad_encoding \<Rightarrow> log (Copied name) (put (Damaged c k))
                     | Read_error \<Rightarrow> Raise OSError (put (RegFile c True))))"

text \<open>
  \<open>target_dir / filename\<close> with \<open>target_dir = AUDIO_DIR\<close>, as \<open>pathlib\<close> joins and
  the file system resolves it. \<open>pathlib\<close> drops empty components and \<open>.\<close>
  components, so a trailing slash or a leading \<open>./\<close> changes nothing; an absolute
  \<open>filename\<close> replaces \<open>AUDIO_DIR\<close> altogether. A single remaining component other
  than \<open>..\<close> names an entry of the content store; \<open>stat\<close> refuses a name of more than
  255 bytes. For every other path the world's \<open>paths\<close> answers. A path with a NUL
  character makes \<open>stat\<close> raise \<open>ValueError\<close>, which \<open>Path.exists\<close> turns into
  \<open>False\<close>.
\<close>

fun split_on :: "nat \<Rightarrow> pystr \<Rightarrow> pystr \<Rightarrow> pystr list" where
  "split_on sep cur [] = [cur]"
| "split_on sep cur (c # cs) =
     (if c = sep then cur # split_on sep [] cs else split_on sep (cur @ [c]) cs)"

definition parts :: "pystr \<Rightarrow> pystr list" where
  "parts p = filter (\<lambda>x. x \<noteq> [] \<and> x \<noteq> py ''.'') (split_on 47 [] p)"

definition resolve :: "pystr \<Rightarrow> world \<Rightarrow> place" where
  "resolve filename w =
     (if 0 \<in> set filename then Nowhere
      else if startswith filename (py ''/'') then paths w filename
      else case parts filename of
             [] \<Rightarrow> if audio_dir w = None then Nowhere else Directory
           | [n] \<Rightarrow> if n = py ''..'' then paths w filename
                    else if 255 < utf8_length n then Unreachable
                    else Entry n
           | _ \<Rightarrow> paths w filename)"

text \<open>
  \<open>safe_delete(filename, target_dir)\<close>: when the target exists it is unlinked, the
  deletion is logged and \<open>True\<close> is returned. Nothing is caught: \<open>exists\<close> raises on
  a path that \<open>stat\<close> refuses, \<open>unlink\<close> raises on a directory and on what may not be
  removed, and \<open>log\<close> raises as said above.
\<close>

definition unlinked :: "pystr \<Rightarrow> world \<Rightarrow> (bool, world) result" where
  "unlinked filename w = and_then (log (Deleted filename) w) (\<lambda>u w'. Return True w')"

definition safe_delete :: "pystr \<Rightarrow> world \<Rightarrow> (bool, world) result" where
  "safe_delete filename w =
     (case resolve filename w of
        Nowhere \<Rightarrow> Return False w
      | Unreachable \<Rightarrow> Raise OSError w
      | Directory \<Rightarrow> Raise IsADirectoryError w
      | Other_file removable \<Rightarrow>
          if removable then unlinked filename w else Raise PermissionError w
      | Log \<Rightarrow>
          if log_writable w then unlinked filename (w\<lparr>log_file := []\<rparr>)
          else Raise PermissionError w
      | Entry n \<Rightarrow>
          (case audio_dir w of
             None \<Rightarrow> Return False w
           | Some d \<Rightarrow>
               (case map_of d n of
                  None \<Rightarrow> Return False w
                | Some SubDir \<Rightarrow> Raise IsADirectoryError w
                | Some x \<Rightarrow>
                    if audio_writable w
                    then unlinked filename (w\<lparr>audio_dir := Some (AList.delete n d)\<rparr>)
                    else Raise PermissionError w))
      | In_add n \<Rightarrow>
          (if \<not> usb_mount w then Return False w
           else case add_dir w of
                  None \<Rightarrow> Return False w
                | Some d \<Rightarrow>
                    (case map_of d n of
                       None \<Rightarrow> Return False w
                     | Some SubDir \<Rightarrow> Raise IsADirectoryError w
                     | Some x \<Rightarrow>
                         if volume w = Read_only then Raise PermissionError w
                         else unlinked filename (w\<lparr>add_dir := Some (AList.delete n d)\<rparr>)))
      | On_volume f \<Rightarrow>
          (if \<not> usb_mount w then Return False w
           else case vnode f w of
                  None \<Rightarrow> Return False w
                | Some SubDir \<Rightarrow> Raise IsADirectoryError w
                | Some x \<Rightarrow>
                    if volume w = Read_only then Raise PermissionError w
                    else unlinked filename (set_vnode f None w)))"

subsection \<open>parse\_deletion\_from\_library\<close>

datatype cursor = Inventory | Deletion

text \<open>
  The body of the loop over the lines of library.txt, on the loop's two variables
  \<open>section\<close> and \<open>deletion\<close>.
\<close>

definition parse_step :: "cursor option \<times> pystr list \<Rightarrow> pystr \<Rightarrow> cursor option \<times> pystr list" where
  "parse_step st line =
     (let section = fst st; deletion = snd st; stripped = strip line
      in if startswith (lower stripped) (py ''inventory'') then (Some Inventory, deletion)
         else if startswith (lower stripped) (py ''deletion'') then (Some Deletion, deletion)
         else if stripped = [] then (section, deletion)
         else if section = Some Deletion \<and> \<not> startswith stripped (py ''.'')
                   \<and> \<not> startswith stripped (py ''#'')
              then (section, deletion @ [stripped])
         else (section, deletion))"

definition parse_lines :: "pystr list \<Rightarrow> pystr list" where
  "parse_lines ls = snd (foldl parse_step (None, []) ls)"

text \<open>
  The file is opened and read inside \<open>try\<close>. The loop runs over the lines it gets; an
  exception, at the opening or between two lines, is logged, and in every case the
  names collected up to there are returned.
\<close>

definition parse_deletion_from_library :: "world \<Rightarrow> (pystr list, world) result" where
  "parse_deletion_from_library w =
     (if \<not> exists Library_txt w then Return [] w
      else
        let deletion = parse_lines (fst (lines_read Library_txt w))
        in case snd (lines_read Library_txt w) of
             None \<Rightarrow> Return deletion w
           | Some e \<Rightarrow> and_then (log Error_parsing_library w) (\<lambda>u w'. Return deletion w'))"

subsection \<open>write\_library\_to\_usb\<close>

definition inventory_entries :: "(pystr \<times> node) list option \<Rightarrow> pystr list" where
  "inventory_entries dir =
     (case dir of
        None \<Rightarrow> []
      | Some d \<Rightarrow> sort (map fst (filter (\<lambda>p. is_file (snd p) \<and> \<not> startswith (fst p) (py ''.'')) d)))"

text \<open>
  The loop \<open>for name in entries: f.write(name + "\n")\<close> on the text written so far:
  \<open>write\<close> encodes its argument, so the loop ends at the first name that UTF-8 cannot
  encode, with what was written before it.
\<close>

fun write_names :: "pystr list \<Rightarrow> pystr \<Rightarrow> pystr \<times> bool" where
  "write_names [] out = (out, True)"
| "write_names (name # names) out =
     (if encodable name then write_names names (out @ name @ [10]) else (out, False))"

text \<open>
  \<open>entries\<close>: the empty list when the content store does not exist, else the sorted
  names of what \<open>iterdir()\<close> lists; listing a content store that may not be read
  raises.
\<close>

definition list_entries :: "world \<Rightarrow> (pystr list, world) result" where
  "list_entries w =
     (if audio_dir w \<noteq> None \<and> \<not> audio_listable w then Raise PermissionError w
      else Return (inventory_entries (audio_dir w)) w)"

text \<open>
  The whole body is inside \<open>try\<close>. The entries are listed first; then the file is
  opened for writing, and so truncated, before the first line is written. When a name
  cannot be encoded the \<open>with\<close> block is left by the exception; the file is closed on
  the way and keeps the lines written so far.
\<close>

definition write_library_to_usb :: "world \<Rightarrow> (unit, world) result" where
  "write_library_to_usb w =
     except
       (if \<not> usb_mount w then log USB_mount_not_found w
        else
          and_then (list_entries w) (\<lambda>entries w0.
          and_then (open_write Library_txt w0) (\<lambda>u w1.
          and_then
            (case write_names entries (py ''Inventory:'' @ [10]) of
               (out, True) \<Rightarrow> store Library_txt (out @ [10] @ py ''Deletion:'' @ [10]) w1
             | (out, False) \<Rightarrow>
                 and_then (store Library_txt out w1) (\<lambda>u w2. Raise UnicodeEncodeError w2))
            (\<lambda>u w3. log Updated_library w3))))
       (\<lambda>w'. log Error_writing_library w')"

subsection \<open>Reboot.txt\<close>

definition ensure_reboot_file :: "world \<Rightarrow> (unit, world) result" where
  "ensure_reboot_file w =
     (if \<not> exists Reboot_txt w then
        except (and_then (write_text Reboot_txt REBOOT_FILE_DEFAULT w)
                  (\<lambda>u w'. log Created_default_Reboot w'))
          (\<lambda>w'. log Error_creating_Reboot w')
      else Return () w)"

definition check_reboot_trigger :: "world \<Rightarrow> (bool, world) result" where
  "check_reboot_trigger w =
     (if \<not> exists Reboot_txt w then Return False w
      else case read_text Reboot_txt w of
             Raise e w' \<Rightarrow> and_then (log Error_reading_Reboot w') (\<lambda>u w''. Return False w'')
           | Return text w' \<Rightarrow>
               let lines = splitlines text
               in if length lines < 2 then Return False w'
                  else Return (strip (lines ! 1) = py ''Reboot'') w')"

definition restore_reboot_file :: "world \<Rightarrow> (unit, world) result" where
  "restore_reboot_file w =
     except (and_then (write_text Reboot_txt REBOOT_FILE_DEFAULT w)
               (\<lambda>u w'. log Restored_Reboot w'))
       (\<lambda>w'. log Error_restoring_Reboot w')"

definition handle_reboot_file :: "world \<Rightarrow> (bool, world) result" where
  "handle_reboot_file w =
     and_then (ensure_reboot_file w) (\<lambda>u w1.
     and_then (check_reboot_trigger w1) (\<lambda>triggered w2.
       if triggered then
         and_then (log Reboot_trigger_detected w2) (\<lambda>u w3.
         and_then (restore_reboot_file w3) (\<lambda>u w4.
         and_then (speak Rebooting_now w4) (\<lambda>u w5.
         and_then (except (run Sync (sync_cmd w5) w5) (\<lambda>w'. Return () w')) (\<lambda>u w6.
         and_then (log Rebooting_now_msg w6) (\<lambda>u w7.
         and_then (except (run Reboot (reboot_cmd w7) w7) (\<lambda>w'. log Reboot_error w')) (\<lambda>u w8.
         Return True w8))))))
       else Return False w2))"

subsection \<open>process\_usb\<close>

text \<open>
  Step 1, the loop over \<open>add_dir.iterdir()\<close>, with the flag \<open>added\<close>. Neither the loop
  nor \<open>safe_copy\<close> catches anything.
\<close>

fun add_files :: "(pystr \<times> node) list \<Rightarrow> bool \<Rightarrow> world \<Rightarrow> (bool, world) result" where
  "add_files [] added w = Return added w"
| "add_files (f # fs) added w =
     (if is_file (snd f) \<and> \<not> startswith (fst f) (py ''.'') then
        and_then (safe_copy (fst f) (snd f) w) (\<lambda>u w'. add_files fs True w')
      else add_files fs added w)"

text \<open>Step 2, the loop over \<open>to_delete\<close>, with the flag \<open>deleted\<close>.\<close>

fun delete_files :: "pystr list \<Rightarrow> bool \<Rightarrow> world \<Rightarrow> (bool, world) result" where
  "delete_files [] deleted w = Return deleted w"
| "delete_files (name # names) deleted w =
     and_then (safe_delete name w) (\<lambda>ok w'. delete_files names (if ok then True else deleted) w')"

definition add_step :: "world \<Rightarrow> (unit, world) result" where
  "add_step w =
     (if usb_mount w \<and> add_dir w \<noteq> None then
        and_then (add_files (the (add_dir w)) False w) (\<lambda>added w'.
          if added then speak New_books_added w' else Return () w')
      else Return () w)"

definition delete_step :: "world \<Rightarrow> (unit, world) result" where
  "delete_step w =
     and_then (parse_deletion_from_library w) (\<lambda>to_delete w1.
       if to_delete \<noteq> [] then
         and_then (log (Requested_deletions to_delete) w1) (\<lambda>u w2.
         and_then (delete_files to_delete False w2) (\<lambda>deleted w3.
           if deleted then speak Books_deleted w3 else Return () w3))
       else Return () w1)"

definition process_usb :: "world \<Rightarrow> (unit, world) result" where
  "process_usb w =
     and_then (handle_reboot_file w) (\<lambda>rebooting w0.
       if rebooting then Return () w0
       else and_then (add_step w0) (\<lambda>u w1.
            and_then (delete_step w1) (\<lambda>u w2.
            write_library_to_usb w2)))"

subsection \<open>The deletion request, as the specification words it\<close>

text \<open>
  A header line is one whose trimmed, lowered form starts with \<open>inventory\<close> or with
  \<open>deletion\<close>. Line \<open>i\<close> lies in the deletion section when the last header line
  before it is a deletion header. The request is the trimmed form of every line of the
  deletion section that is no header, not blank and starts neither with \<open>.\<close> nor with
  \<open>#\<close>, in file order.
\<close>

definition header :: "pystr \<Rightarrow> cursor option" where
  "header line =
     (if startswith (lower (strip line)) (py ''inventory'') then Some Inventory
      else if startswith (lower (strip line)) (py ''deletion'') then Some Deletion
      else None)"

definition in_deletion_section :: "pystr list \<Rightarrow> nat \<Rightarrow> bool" where
  "in_deletion_section ls i \<longleftrightarrow>
     (\<exists>j\<in>{0..<i}. header (ls ! j) = Some Deletion \<and> (\<forall>k\<in>{j<..<i}. header (ls ! k) = None))"

definition requested :: "pystr list \<Rightarrow> nat \<Rightarrow> bool" where
  "requested ls i \<longleftrightarrow>
     in_deletion_section ls i \<and> header (ls ! i) = None \<and> strip (ls ! i) \<noteq> []
     \<and> \<not> startswith (strip (ls ! i)) (py ''.'') \<and> \<not> startswith (strip (ls ! i)) (py ''#'')"

definition deletion_section_lines :: "pystr list \<Rightarrow> pystr list" where
  "deletion_section_lines ls = map (\<lambda>i. strip (ls ! i)) (filter (requested ls) [0..<length ls])"

section \<open>watch\_usb.py\<close>

text \<open>
  One node of the tree \<open>lsblk -J -o NAME,PATH,RM,MOUNTPOINT\<close> prints: \<open>b.get\<close> of
  \<open>name\<close>, \<open>path\<close> and \<open>mountpoint\<close> (\<open>None\<close> for a missing key or a JSON
  \<open>null\<close>), the removable flag (a JSON boolean, and \<open>True == 1\<close> holds in Python) and
  the children, the empty list when the key is missing.
\<close>

datatype blockdev =
  BlockDev (name: "pystr option") (path: "pystr option") (rm: bool)
           (mountpoint: "pystr option") (children: "blockdev list")

text \<open>
  \<open>str.isdigit\<close> of one code point. Device names are kernel names, written in ASCII,
  where the digits are \<open>0\<close> to \<open>9\<close>.
\<close>

definition isdigit :: "nat \<Rightarrow> bool" where
  "isdigit c \<longleftrightarrow> 48 \<le> c \<and> c \<le> 57"

text \<open>Python's truth value of a string or \<open>None\<close>.\<close>

definition truthy :: "pystr option \<Rightarrow> bool" where
  "truthy r \<longleftrightarrow> r \<noteq> None \<and> r \<noteq> Some []"

text \<open>The test \<open>walk\<close> makes on a node.\<close>

definition wanted :: "blockdev \<Rightarrow> bool" where
  "wanted b \<longleftrightarrow>
     rm b \<and> truthy (name b) \<and> isdigit (last (the (name b)))
     \<and> (mountpoint b = None \<or> mountpoint b = Some [])"

fun walk :: "blockdev list \<Rightarrow> pystr option" where
  "walk [] = None"
| "walk (BlockDev nm pth r mnt cs # bs) =
     (if wanted (BlockDev nm pth r mnt cs) then pth
      else if cs \<noteq> [] then
        (let res = walk cs in if truthy res then res else walk bs)
      else walk bs)"

text \<open>
  The outcome of \<open>lsblk\<close>: \<open>check_output\<close> raises, or the tool prints its tree (the
  output is taken to be the JSON document lsblk prints).
\<close>

datatype lsblk_result = Lsblk_failed | Blockdevices "blockdev list"

datatype wmsg =
    Watcher_started
  | Lsblk_failed_msg
  | Detected pystr
  | Mounted pystr
  | Importer_completed
  | Unmounted pystr
  | Error_handling pystr
  | Removed pystr

text \<open>The external calls of the watcher, in the order it makes them.\<close>

datatype op = Mkdir | Mount pystr | Run_importer | Flush | Umount

text \<open>
  What the watcher meets in one pass of its loop: the outcome of \<open>lsblk\<close>, whether the
  mount point can be created, the outcomes of \<open>mount\<close>, of the importer
  \<open>usb_manager.py\<close>, of \<open>sync\<close> and of \<open>umount\<close>, and whether the log file can be
  opened for appending.
\<close>

record cycle =
  lsblk :: lsblk_result
  mkdir_ok :: bool
  mount_cmd :: proc
  importer :: proc
  flush_cmd :: proc
  umount_cmd :: proc
  log_ok :: bool

record watcher =
  last_device :: "pystr option"
  watch_log :: "wmsg list"
  ops :: "op list"

text \<open>\<open>log\<close> of watch\_usb.py: opens the log file for appending; nothing is caught.\<close>

definition wlog :: "cycle \<Rightarrow> wmsg \<Rightarrow> watcher \<Rightarrow> (unit, watcher) result" where
  "wlog c msg s =
     (if log_ok c then Return () (s\<lparr>watch_log := watch_log s @ [msg]\<rparr>)
      else Raise PermissionError s)"

definition find_usb_partition :: "cycle \<Rightarrow> watcher \<Rightarrow> (pystr option, watcher) result" where
  "find_usb_partition c s =
     (case lsblk c of
        Lsblk_failed \<Rightarrow> and_then (wlog c Lsblk_failed_msg s) (\<lambda>u s'. Return None s')
      | Blockdevices bs \<Rightarrow> Return (walk bs) s)"

text \<open>
  \<open>subprocess.run(..., check=True)\<close> raises unless the command exits with status 0;
  without \<open>check\<close> it raises only when the command cannot be started.
\<close>

definition run_checked :: "op \<Rightarrow> proc \<Rightarrow> watcher \<Rightarrow> (unit, watcher) result" where
  "run_checked x p s =
     (let s' = s\<lparr>ops := ops s @ [x]\<rparr>
      in case p of NotStarted \<Rightarrow> Raise FileNotFoundError s'
                 | Exited n \<Rightarrow> if n = 0 then Return () s' else Raise CalledProcessError s')"

definition run_unchecked :: "op \<Rightarrow> proc \<Rightarrow> watcher \<Rightarrow> (unit, watcher) result" where
  "run_unchecked x p s =
     (let s' = s\<lparr>ops := ops s @ [x]\<rparr>
      in case p of NotStarted \<Rightarrow> Raise FileNotFoundError s' | Exited n \<Rightarrow> Return () s')"

definition make_mountpoint :: "cycle \<Rightarrow> watcher \<Rightarrow> (unit, watcher) result" where
  "make_mountpoint c s =
     (let s' = s\<lparr>ops := ops s @ [Mkdir]\<rparr>
      in if mkdir_ok c then Return () s' else Raise PermissionError s')"

text \<open>The body of the \<open>try\<close> block of \<open>main\<close>.\<close>

definition handle_device :: "cycle \<Rightarrow> pystr \<Rightarrow> watcher \<Rightarrow> (unit, watcher) result" where
  "handle_device c dev s =
     and_then (make_mountpoint c s) (\<lambda>u s1.
     and_then (run_checked (Mount dev) (mount_cmd c) s1) (\<lambda>u s2.
     and_then (wlog c (Mounted dev) s2) (\<lambda>u s3.
     and_then (run_checked Run_importer (importer c) s3) (\<lambda>u s4.
     and_then (wlog c Importer_completed s4) (\<lambda>u s5.
     and_then (run_unchecked Flush (flush_cmd c) s5) (\<lambda>u s6.
     and_then (run_checked Umount (umount_cmd c) s6) (\<lambda>u s7.
     and_then (wlog c (Unmounted dev) s7) (\<lambda>u s8.
     Return () (s8\<lparr>last_device := Some dev\<rparr>)))))))))"

text \<open>One pass of the \<open>while True\<close> loop of \<open>main\<close> (the sleep is left out).\<close>

definition poll :: "cycle \<Rightarrow> watcher \<Rightarrow> (unit, watcher) result" where
  "poll c s =
     and_then (find_usb_partition c s) (\<lambda>dev s1.
     and_then
       (if truthy dev \<and> dev \<noteq> last_device s1 then
          and_then (wlog c (Detected (the dev)) s1) (\<lambda>u s2.
            except (handle_device c (the dev) s2) (\<lambda>s'. wlog c (Error_handling (the dev)) s'))
        else Return () s1) (\<lambda>u s3.
     if \<not> truthy dev then
       and_then (if truthy (last_device s3) then wlog c (Removed (the (last_device s3))) s3
                 else Return () s3) (\<lambda>u s4.
       Return () (s4\<lparr>last_device := None\<rparr>))
     else Return () s3))"

text \<open>
  The loop never ends by itself; \<open>main_loop\<close> runs the passes a finite list of cycles
  describes and returns the state reached, or raises where a pass raises: the exception
  then leaves \<open>main\<close> and ends the process.
\<close>

fun main_loop :: "cycle list \<Rightarrow> watcher \<Rightarrow> (unit, watcher) result" where
  "main_loop [] s = Return () s"
| "main_loop (c # cs) s = and_then (poll c s) (\<lambda>u s'. main_loop cs s')"

text \<open>
  \<open>main\<close>: \<open>last_device = None\<close>, \<open>LOG_FILE.touch\<close> and the first log line, whose
  success \<open>start\<close> decides, then the loop.
\<close>

definition main :: "cycle \<Rightarrow> cycle list \<Rightarrow> (unit, watcher) result" where
  "main start cs =
     (let s0 = \<lparr>last_device = None, watch_log = [], ops = []\<rparr>
      in and_then (if log_ok start then Return () s0 else Raise PermissionError s0) (\<lambda>u s1.
         and_then (wlog start Watcher_started s1) (\<lambda>u s2.
         main_loop cs s2)))"

section \<open>What the claims speak about\<close>

text \<open>The state a call leaves behind, whether it returned or raised.\<close>

definition final :: "('a, 's) result \<Rightarrow> 's" where
  "final r = (case r of Return a s \<Rightarrow> s | Raise e s \<Rightarrow> s)"

text \<open>
  The reboot trigger: Reboot.txt is on the mounted volume, can be read, has at least two
  lines (as \<open>splitlines\<close> counts them) and its second line, trimmed, is \<open>Reboot\<close>.
\<close>

definition reboot_requested :: "world \<Rightarrow> bool" where
  "reboot_requested w \<longleftrightarrow>
     usb_mount w \<and>
     (case reboot_txt w of
        Some (RegFile text r) \<Rightarrow>
          r \<and> 2 \<le> length (splitlines (translate_newlines text))
            \<and> strip (splitlines (translate_newlines text) ! 1) = py ''Reboot''
      | _ \<Rightarrow> False)"

text \<open>
  The state after a reboot handling in which the rewrite and every log line succeed:
  Reboot.txt holds the default text, the log has the three lines of the handling and,
  when the reboot command could not be started, the line of its error, and the trace
  shows the write of Reboot.txt, the announcement, \<open>sync\<close> and \<open>reboot\<close>, in this
  order.
\<close>

definition rebooted :: "world \<Rightarrow> world" where
  "rebooted w =
     w\<lparr>reboot_txt := Some (RegFile REBOOT_FILE_DEFAULT True),
       log_file := log_file w @ [Reboot_trigger_detected, Restored_Reboot, Rebooting_now_msg]
                   @ (if reboot_cmd w = NotStarted then [Reboot_error] else []),
       trace := trace w @ [Wrote Reboot_txt, Ran (Espeak Rebooting_now), Ran Sync, Ran Reboot]\<rparr>"




text \<open>The nodes of a block-device tree in pre-order: a node, its children, its siblings.\<close>

fun preorder :: "blockdev list \<Rightarrow> blockdev list" where
  "preorder [] = []"
| "preorder (BlockDev nm pth r mnt cs # bs) = BlockDev nm pth r mnt cs # preorder cs @ preorder bs"

text \<open>
  The node the watcher looks for: flagged removable, its name ends in a digit, its
  mountpoint is absent or empty.
\<close>

definition unmounted_removable_partition :: "blockdev \<Rightarrow> bool" where
  "unmounted_removable_partition b \<longleftrightarrow>
     rm b
     \<and> (\<exists>n\<in>set_option (name b). n \<noteq> [] \<and> isdigit (last n))
     \<and> (\<forall>m\<in>set_option (mountpoint b). m = [])"

definition first_partition_path :: "blockdev list \<Rightarrow> pystr option" where
  "first_partition_path bs =
     (case filter unmounted_removable_partition (preorder bs) of
        [] \<Rightarrow> None
      | b # rest \<Rightarrow> path b)"

text \<open>
  \<open>lsblk\<close> prints a device path for every node. The search relies on it for the nodes
  it looks for: \<open>walk\<close> tests the result of a recursive call for truth, so a node
  without a path inside a subtree would count as no match.
\<close>

definition paths_present :: "blockdev list \<Rightarrow> bool" where
  "paths_present bs \<longleftrightarrow>
     (\<forall>b\<in>set (filter unmounted_removable_partition (preorder bs)). truthy (path b))"

text \<open>
  A cycle in which exactly one such partition is enumerated, with device path \<open>dev\<close>,
  and a cycle in which none is.
\<close>

definition present :: "pystr \<Rightarrow> cycle \<Rightarrow> bool" where
  "present dev c \<longleftrightarrow>
     (case lsblk c of
        Lsblk_failed \<Rightarrow> False
      | Blockdevices bs \<Rightarrow>
          map path (filter unmounted_removable_partition (preorder bs)) = [Some dev])"

definition absent :: "cycle \<Rightarrow> bool" where
  "absent c \<longleftrightarrow>
     (case lsblk c of
        Lsblk_failed \<Rightarrow> False
      | Blockdevices bs \<Rightarrow> filter unmounted_removable_partition (preorder bs) = [])"

text \<open>
  The handling sequence of a cycle goes through: the mount point can be created,
  \<open>mount\<close>, the importer and \<open>umount\<close> exit with status 0, and \<open>sync\<close> can be
  started (its exit status is not looked at).
\<close>

definition handling_succeeds :: "cycle \<Rightarrow> bool" where
  "handling_succeeds c \<longleftrightarrow>
     mkdir_ok c \<and> mount_cmd c = Exited 0 \<and> importer c = Exited 0
     \<and> flush_cmd c \<noteq> NotStarted \<and> umount_cmd c = Exited 0"

text \<open>
  The watcher's state after one complete handling of \<open>dev\<close>, and after \<open>dev\<close> was seen
  to be gone.
\<close>

definition handled :: "pystr \<Rightarrow> watcher \<Rightarrow> watcher" where
  "handled dev s =
     s\<lparr>last_device := Some dev,
       watch_log := watch_log s @ [Detected dev, Mounted dev, Importer_completed, Unmounted dev],
       ops := ops s @ [Mkdir, Mount dev, Run_importer, Flush, Umount]\<rparr>"

definition removed :: "pystr \<Rightarrow> watcher \<Rightarrow> watcher" where
  "removed dev s = s\<lparr>last_device := None, watch_log := watch_log s @ [Removed dev]\<rparr>"

section \<open>Example states\<close>

text \<open>
  A library.txt whose deletion section holds \<open>a.mp3\<close>, \<open>#skip.mp3\<close>, a blank line
  and \<open>b.mp3\<close>, and a mounted, writable volume that holds it.
\<close>

definition library_example :: pystr where
  "library_example =
     py ''Deletion:'' @ [10] @ py ''a.mp3'' @ [10] @ py ''#skip.mp3'' @ [10] @ [10]
     @ py ''b.mp3'' @ [10]"

definition world_example :: world where
  "world_example =
     \<lparr>usb_mount = True, volume = Writable, reboot_txt = None,
      library_txt = Some (RegFile library_example True),
      add_dir = None, audio_dir = Some [], audio_writable = True, audio_listable = True,
      log_writable = True,
      log_file = [], espeak = Exited 0, sync_cmd = Exited 0, reboot_cmd = Exited 0,
      paths = (\<lambda>p. Nowhere), trace = []\<rparr>"

text \<open>
  A mounted, writable volume with an armed Reboot.txt, no library.txt and no \<open>Add\<close>
  directory; the content store holds two files, a hidden file and a subdirectory; no
  other path leads anywhere.
\<close>

definition world_armed :: world where
  "world_armed =
     \<lparr>usb_mount = True, volume = Writable,
      reboot_txt = Some (RegFile REBOOT_FILE_DEFAULT True), library_txt = None,
      add_dir = None,
      audio_dir = Some [(py ''b.mp3'', RegFile (py ''bb'') True), (py ''Z.mp3'', RegFile (py ''zz'') True),
                        (py ''.hidden'', RegFile [] True), (py ''series'', SubDir)],
      audio_writable = True, audio_listable = True, log_writable = True, log_file = [],
      espeak = Exited 0, sync_cmd = Exited 0, reboot_cmd = Exited 0,
      paths = (\<lambda>p. Nowhere), trace = []\<rparr>"

text \<open>The same, with an \<open>Add\<close> directory that holds one file which cannot be read.\<close>

definition world_unreadable_add :: world where
  "world_unreadable_add = world_armed\<lparr>add_dir := Some [(py ''new.mp3'', RegFile (py ''audio'') False)]\<rparr>"

text \<open>
  A volume whose Reboot.txt asks for a reboot, with a file to add and deletions
  requested; and the same where the reboot command exits with status 1.
\<close>

definition world_triggered :: world where
  "world_triggered =
     world_armed\<lparr>reboot_txt := Some (RegFile (py ''# edit the next line'' @ [10] @ py ''Reboot'' @ [10]) True),
                 add_dir := Some [(py ''new.mp3'', RegFile (py ''audio'') True)],
                 library_txt := Some (RegFile library_example True)\<rparr>"

definition world_reboot_fails :: world where
  "world_reboot_fails = world_triggered\<lparr>reboot_cmd := Exited 1\<rparr>"

text \<open>
  The triggered volume on a write-protected drive, which is mounted read-only; and the
  triggered volume when the log file cannot be opened.
\<close>

definition world_write_protected :: world where
  "world_write_protected = world_triggered\<lparr>volume := Read_only\<rparr>"

definition world_log_unwritable :: world where
  "world_log_unwritable = world_triggered\<lparr>log_writable := False\<rparr>"

text \<open>
  A file name whose bytes are not UTF-8: \<open>caf\<close>, the byte 233 (an e with acute accent
  in Latin-1, which reaches Python as U+DCE9) and \<open>.mp3\<close>. A volume that offers a file
  of this name in \<open>Add\<close>, and a content store that holds one between \<open>b.mp3\<close>
  and \<open>z.mp3\<close>.
\<close>

definition escaped_name :: pystr where
  "escaped_name = py ''caf'' @ [56553] @ py ''.mp3''"

definition world_escaped_add :: world where
  "world_escaped_add = world_armed\<lparr>add_dir := Some [(escaped_name, RegFile (py ''audio'') True)]\<rparr>"


text \<open>A volume whose Reboot.txt has the single line \<open>Reboot\<close>.\<close>

definition world_short :: world where
  "world_short = world_armed\<lparr>reboot_txt := Some (RegFile (py ''Reboot'' @ [10]) True)\<rparr>"

text \<open>
  The same, with a library.txt whose deletion section names the path of Reboot.txt on
  the volume.
\<close>

definition world_short_unlinked :: world where
  "world_short_unlinked =
     world_short\<lparr>library_txt := Some (RegFile (py ''Deletion:'' @ [10] @ py ''/media/usb/Reboot.txt'' @ [10]) True),
                 paths := (\<lambda>p. if p = py ''/media/usb/Reboot.txt'' then On_volume Reboot_txt else Nowhere)\<rparr>"

text \<open>
  An enumeration with the system's SD card and a USB drive whose partition
  \<open>/dev/sda1\<close> is not mounted; a cycle in which everything succeeds, one that
  enumerates nothing, one in which \<open>umount\<close> exits with status 32; and the watcher's
  state when it enters its loop.
\<close>

definition sda_tree :: "blockdev list" where
  "sda_tree =
     [BlockDev (Some (py ''mmcblk0'')) (Some (py ''/dev/mmcblk0'')) False None
        [BlockDev (Some (py ''mmcblk0p1'')) (Some (py ''/dev/mmcblk0p1'')) False (Some (py ''/'')) []],
      BlockDev (Some (py ''sda'')) (Some (py ''/dev/sda'')) True None
        [BlockDev (Some (py ''sda1'')) (Some (py ''/dev/sda1'')) True None []]]"

definition cycle_example :: cycle where
  "cycle_example =
     \<lparr>lsblk = Blockdevices sda_tree, mkdir_ok = True, mount_cmd = Exited 0, importer = Exited 0,
      flush_cmd = Exited 0, umount_cmd = Exited 0, log_ok = True\<rparr>"

definition cycle_empty :: cycle where
  "cycle_empty = cycle_example\<lparr>lsblk := Blockdevices []\<rparr>"


definition watcher_start :: watcher where
  "watcher_start = \<lparr>last_device = None, watch_log = [Watcher_started], ops = []\<rparr>"

section \<open>Log lines and files of the volume\<close>

lemma spelled_simps [simp]:
  "spelled (Copied n) = n" "spelled (Deleted n) = n"
  "spelled Error_parsing_library = []" "spelled USB_mount_not_found = []"
  "spelled Updated_library = []" "spelled Error_writing_library = []"
  "spelled Created_default_Reboot = []" "spelled Error_creating_Reboot = []"
  "spelled Error_reading_Reboot = []" "spelled Restored_Reboot = []"
  "spelled Error_restoring_Reboot = []" "spelled Reboot_trigger_detected = []"
  "spelled Rebooting_now_msg = []" "spelled Reboot_error = []"
  "spelled (Requested_deletions ns) = []"
  by (simp_all add: spelled_def)

lemma encodable_Nil [simp]: "encodable []"
  by (simp add: encodable_def)

lemma encodable_default [simp]: "encodable REBOOT_FILE_DEFAULT"
  by (simp add: encodable_def REBOOT_FILE_DEFAULT_def py_def)

lemma final_Return: "final (Return a w) = w"
  by (simp add: final_def)



section \<open>The deletion parser computes the request\<close>

lemma parse_step_fst:
  "fst (parse_step st l) = (case header l of Some c \<Rightarrow> Some c | None \<Rightarrow> fst st)"
  by (simp add: parse_step_def header_def Let_def)

lemma in_deletion_section_0: "in_deletion_section ls 0 = False"
  by (simp add: in_deletion_section_def)

lemma in_deletion_section_Suc:
  "in_deletion_section ls (Suc n) \<longleftrightarrow>
     header (ls ! n) = Some Deletion \<or> (header (ls ! n) = None \<and> in_deletion_section ls n)"
proof -
  have r: "\<And>j. j < n \<Longrightarrow> {j<..<Suc n} = insert n {j<..<n}" by auto
  have e: "{n<..<Suc n} = {}" by auto
  show ?thesis
    unfolding in_deletion_section_def
    by (simp add: atLeast0_lessThan_Suc r e) auto
qed

lemma in_deletion_section_append:
  "i \<le> length ls \<Longrightarrow> in_deletion_section (ls @ rest) i = in_deletion_section ls i"
  by (simp add: in_deletion_section_def nth_append)

lemma requested_append:
  "i < length ls \<Longrightarrow> requested (ls @ rest) i = requested ls i"
  by (simp add: requested_def in_deletion_section_append nth_append)

lemma deletion_section_lines_snoc:
  "deletion_section_lines (ls @ [l]) =
     deletion_section_lines ls @ (if requested (ls @ [l]) (length ls) then [strip l] else [])"
proof -
  have "filter (requested (ls @ [l])) [0..<length ls] = filter (requested ls) [0..<length ls]"
    by (rule filter_cong) (simp_all add: requested_append)
  moreover have "map (\<lambda>i. strip ((ls @ [l]) ! i)) (filter (requested ls) [0..<length ls])
      = map (\<lambda>i. strip (ls ! i)) (filter (requested ls) [0..<length ls])"
    by (rule map_cong) (simp_all add: nth_append)
  ultimately show ?thesis
    by (simp add: deletion_section_lines_def)
qed

lemma cursor_after:
  "fst (foldl parse_step (None, []) ls) = Some Deletion \<longleftrightarrow> in_deletion_section (ls @ rest) (length ls)"
proof (induction ls arbitrary: rest rule: rev_induct)
  case Nil
  show ?case by (simp add: in_deletion_section_0)
next
  case (snoc l ls)
  from snoc [of "l # rest"] show ?case
    by (simp add: parse_step_fst in_deletion_section_Suc nth_append split: option.splits)
qed

lemma parse_step_snd:
  "snd (parse_step st l) =
     snd st @ (if fst st = Some Deletion \<and> header l = None \<and> strip l \<noteq> []
                  \<and> \<not> startswith (strip l) (py ''.'') \<and> \<not> startswith (strip l) (py ''#'')
               then [strip l] else [])"
  by (simp add: parse_step_def header_def Let_def)

lemma parse_lines_eq: "parse_lines ls = deletion_section_lines ls"
  unfolding parse_lines_def
proof (induction ls rule: rev_induct)
  case Nil
  show ?case by (simp add: deletion_section_lines_def)
next
  case (snoc l ls)
  have "requested (ls @ [l]) (length ls) \<longleftrightarrow>
      fst (foldl parse_step (None, []) ls) = Some Deletion \<and> header l = None \<and> strip l \<noteq> []
      \<and> \<not> startswith (strip l) (py ''.'') \<and> \<not> startswith (strip l) (py ''#'')"
    by (simp add: requested_def cursor_after [of ls "[l]"])
  with snoc show ?case
    by (simp add: parse_step_snd deletion_section_lines_snoc)
qed

lemma parse_absent:
  "\<not> exists Library_txt w \<Longrightarrow> parse_deletion_from_library w = Return [] w"
  by (simp add: parse_deletion_from_library_def)

lemma parse_readable:
  "usb_mount w \<Longrightarrow> library_txt w = Some (RegFile text True) \<Longrightarrow>
   parse_deletion_from_library w = Return (parse_lines (file_lines text)) w"
  by (simp add: parse_deletion_from_library_def exists_def vnode_def lines_read_def)

text \<open>
  A library.txt whose reading breaks off: the error is logged and the names requested
  on the lines read before it are returned.
\<close>

lemma parse_damaged:
  "usb_mount w \<Longrightarrow> library_txt w = Some (Damaged c k) \<Longrightarrow> log_writable w \<Longrightarrow>
   parse_deletion_from_library w
     = Return (parse_lines (filter (\<lambda>l. l \<noteq> [] \<and> last l = 10) (file_lines c)))
         (w\<lparr>log_file := log_file w @ [Error_parsing_library]\<rparr>)"
  by (simp add: parse_deletion_from_library_def exists_def vnode_def lines_read_def log_def
        and_then_def)

lemma parse_lines_example:
  "parse_lines (file_lines library_example) = [py ''a.mp3'', py ''b.mp3'']"
  by (simp add: library_example_def file_lines_def parse_lines_def parse_step_def strip_def
        lower_def startswith_def isspace_def py_def)

text \<open>
  Claim C4. When library.txt is absent, \<open>parse_deletion_from_library\<close> returns the
  empty list and raises nothing. For a readable library.txt it returns the deletion
  request as the specification words it: in file order, duplicates kept, the trimmed
  form of each line that lies in the deletion section (the cursor switches on the lines
  whose trimmed, lowered form starts with \<open>deletion\<close> or \<open>inventory\<close>), is not blank
  and starts neither with \<open>.\<close> nor with \<open>#\<close>. For a deletion section that holds
  \<open>a.mp3\<close>, \<open>#skip.mp3\<close>, a blank line and \<open>b.mp3\<close> the result is
  \<open>["a.mp3", "b.mp3"]\<close>.
\<close>

theorem parse_deletion_from_library_request:
  "(\<not> exists Library_txt w \<longrightarrow> parse_deletion_from_library w = Return [] w)
   \<and> (usb_mount w \<and> library_txt w = Some (RegFile text True) \<longrightarrow>
        parse_deletion_from_library w = Return (deletion_section_lines (file_lines text)) w)
   \<and> (usb_mount w \<and> library_txt w = Some (RegFile library_example True) \<longrightarrow>
        parse_deletion_from_library w = Return [py ''a.mp3'', py ''b.mp3''] w)"
  by (simp add: parse_absent parse_readable parse_lines_eq [symmetric] parse_lines_example)

theorem parse_deletion_from_library_request_witness:
  "usb_mount world_example \<and> library_txt world_example = Some (RegFile library_example True)
   \<and> parse_deletion_from_library world_example
       = Return (deletion_section_lines (file_lines library_example)) world_example
   \<and> deletion_section_lines (file_lines library_example) = [py ''a.mp3'', py ''b.mp3'']
   \<and> \<not> exists Library_txt (world_example\<lparr>library_txt := None\<rparr>)
   \<and> parse_deletion_from_library (world_example\<lparr>library_txt := None\<rparr>)
       = Return [] (world_example\<lparr>library_txt := None\<rparr>)"
proof -
  have m: "usb_mount world_example"
    and l: "library_txt world_example = Some (RegFile library_example True)"
    and a: "\<not> exists Library_txt (world_example\<lparr>library_txt := None\<rparr>)"
    by (simp_all add: world_example_def exists_def vnode_def)
  from parse_deletion_from_library_request [of world_example library_example]
    parse_deletion_from_library_request [of "world_example\<lparr>library_txt := None\<rparr>"]
    m l a
  show ?thesis by (simp add: parse_lines_eq [symmetric] parse_lines_example)
qed

section \<open>The partition search\<close>

lemma wanted_eq: "wanted b = unmounted_removable_partition b"
  by (cases "name b"; cases "mountpoint b")
     (auto simp: wanted_def unmounted_removable_partition_def truthy_def)

lemma walk_first:
  "paths_present bs \<Longrightarrow> walk bs = first_partition_path bs"
proof (induction bs rule: walk.induct)
  case 1
  show ?case by (simp add: first_partition_path_def)
next
  case (2 nm pth r mnt cs bs)
  let ?b = "BlockDev nm pth r mnt cs"
  from "2.prems" have pc: "paths_present cs" and pb: "paths_present bs"
    by (auto simp: paths_present_def)
  show ?case
  proof (cases "wanted ?b")
    case True
    then show ?thesis by (simp add: first_partition_path_def wanted_eq)
  next
    case nw: False
    have wc: "walk cs = first_partition_path cs"
    proof (cases "cs = []")
      case True then show ?thesis by (simp add: first_partition_path_def)
    next
      case False with nw pc "2.IH"(1) show ?thesis by simp
    qed
    have tr: "truthy (walk cs) \<longleftrightarrow> filter unmounted_removable_partition (preorder cs) \<noteq> []"
    proof (cases "filter unmounted_removable_partition (preorder cs)")
      case Nil
      then show ?thesis by (simp add: wc first_partition_path_def truthy_def)
    next
      case (Cons b rest)
      then have "b \<in> set (filter unmounted_removable_partition (preorder cs))" by simp
      then have "b \<in> set (preorder cs)" by simp
      with pc Cons have "truthy (path b)" by (simp add: paths_present_def)
      with Cons show ?thesis by (simp add: wc first_partition_path_def)
    qed
    show ?thesis
    proof (cases "truthy (walk cs)")
      case True
      with tr have ne: "filter unmounted_removable_partition (preorder cs) \<noteq> []" by simp
      then have "cs \<noteq> []" by auto
      with nw True wc ne show ?thesis
        by (auto simp: first_partition_path_def wanted_eq [symmetric] Let_def split: list.splits)
    next
      case False
      with tr have e: "filter unmounted_removable_partition (preorder cs) = []" by simp
      have "walk (?b # bs) = walk bs" using nw False by (simp add: Let_def)
      also have "\<dots> = first_partition_path bs"
      proof -
        have "walk bs = first_partition_path bs"
          using "2.IH"(2,3) nw False pb by (cases "cs = []") (simp_all add: Let_def)
        then show ?thesis .
      qed
      also have "\<dots> = first_partition_path (?b # bs)"
        using nw e by (simp add: first_partition_path_def wanted_eq [symmetric])
      finally show ?thesis .
    qed
  qed
qed

lemma walk_none:
  "filter unmounted_removable_partition (preorder bs) = [] \<Longrightarrow> walk bs = None"
proof (induction bs rule: walk.induct)
  case 1
  show ?case by simp
next
  case (2 nm pth r mnt cs bs)
  then show ?case
    by (auto simp: wanted_eq Let_def truthy_def split: if_splits)
qed

lemma sda_tree_partitions:
  "filter unmounted_removable_partition (preorder sda_tree)
     = [BlockDev (Some (py ''sda1'')) (Some (py ''/dev/sda1'')) True None []]"
  by (simp add: sda_tree_def unmounted_removable_partition_def isdigit_def py_def)

text \<open>
  Claim C7. For a block-device tree as \<open>lsblk\<close> prints it (the partitions looked for
  carry a device path), \<open>find_usb_partition\<close> returns the device path of the first
  node in pre-order that is flagged removable, has a name ending in a digit and has an
  empty or absent mountpoint; it returns \<open>None\<close> when the tree has no such node. When
  \<open>lsblk\<close> fails, the failure is logged and \<open>None\<close> is returned, nothing is raised (the
  log line is written: the log file can be appended to).
\<close>

theorem find_usb_partition_first:
  "(lsblk c = Blockdevices bs \<and> paths_present bs \<longrightarrow>
      find_usb_partition c s = Return (first_partition_path bs) s)
   \<and> (lsblk c = Blockdevices bs \<and> filter unmounted_removable_partition (preorder bs) = [] \<longrightarrow>
      find_usb_partition c s = Return None s)
   \<and> (lsblk c = Lsblk_failed \<and> log_ok c \<longrightarrow>
      find_usb_partition c s = Return None (s\<lparr>watch_log := watch_log s @ [Lsblk_failed_msg]\<rparr>))"
  by (simp add: find_usb_partition_def walk_first walk_none wlog_def and_then_def)

theorem find_usb_partition_first_witness:
  "lsblk cycle_example = Blockdevices sda_tree \<and> paths_present sda_tree
   \<and> find_usb_partition cycle_example watcher_start = Return (Some (py ''/dev/sda1'')) watcher_start
   \<and> lsblk (cycle_example\<lparr>lsblk := Blockdevices []\<rparr>) = Blockdevices []
   \<and> filter unmounted_removable_partition (preorder []) = []
   \<and> find_usb_partition (cycle_example\<lparr>lsblk := Blockdevices []\<rparr>) watcher_start = Return None watcher_start
   \<and> lsblk (cycle_example\<lparr>lsblk := Lsblk_failed\<rparr>) = Lsblk_failed
   \<and> log_ok (cycle_example\<lparr>lsblk := Lsblk_failed\<rparr>)
   \<and> find_usb_partition (cycle_example\<lparr>lsblk := Lsblk_failed\<rparr>) watcher_start
        = Return None (watcher_start\<lparr>watch_log := watch_log watcher_start @ [Lsblk_failed_msg]\<rparr>)"
proof -
  have a: "lsblk cycle_example = Blockdevices sda_tree" "log_ok cycle_example"
    by (simp_all add: cycle_example_def)
  have p: "paths_present sda_tree"
    by (simp add: paths_present_def sda_tree_partitions truthy_def py_def)
  have f: "first_partition_path sda_tree = Some (py ''/dev/sda1'')"
    by (simp add: first_partition_path_def sda_tree_partitions)
  from find_usb_partition_first [of cycle_example sda_tree watcher_start]
    find_usb_partition_first [of "cycle_example\<lparr>lsblk := Blockdevices []\<rparr>" "[]" watcher_start]
    find_usb_partition_first [of "cycle_example\<lparr>lsblk := Lsblk_failed\<rparr>" bs watcher_start for bs]
    a p f
  show ?thesis by simp
qed

section \<open>The watcher loop\<close>

lemma present_find:
  assumes "present dev c" "dev \<noteq> []"
  shows "find_usb_partition c s = Return (Some dev) s"
proof -
  from assms obtain bs where l: "lsblk c = Blockdevices bs"
    and m: "map path (filter unmounted_removable_partition (preorder bs)) = [Some dev]"
    by (auto simp: present_def split: lsblk_result.splits)
  from m obtain b where f: "filter unmounted_removable_partition (preorder bs) = [b]"
    and b: "path b = Some dev" by (auto simp: map_eq_Cons_conv)
  from f b assms(2) have "paths_present bs" by (simp add: paths_present_def truthy_def)
  with l f b show ?thesis
    by (simp add: find_usb_partition_def walk_first first_partition_path_def)
qed

lemma absent_find:
  assumes "absent c"
  shows "find_usb_partition c s = Return None s"
  using assms by (auto simp: absent_def find_usb_partition_def walk_none split: lsblk_result.splits)

lemma handle_device_success:
  "log_ok c \<Longrightarrow> handling_succeeds c \<Longrightarrow>
   handle_device c dev s =
     Return () (s\<lparr>last_device := Some dev,
       watch_log := watch_log s @ [Mounted dev, Importer_completed, Unmounted dev],
       ops := ops s @ [Mkdir, Mount dev, Run_importer, Flush, Umount]\<rparr>)"
  by (cases "flush_cmd c")
     (simp_all add: handle_device_def handling_succeeds_def make_mountpoint_def run_checked_def
        run_unchecked_def wlog_def and_then_def Let_def)

lemma poll_new:
  assumes "find_usb_partition c s = Return (Some dev) s" "dev \<noteq> []" "last_device s \<noteq> Some dev"
    "log_ok c" "handling_succeeds c"
  shows "poll c s = Return () (handled dev s)"
  using assms
  by (simp add: poll_def and_then_def except_def truthy_def wlog_def handle_device_success handled_def)

lemma poll_same:
  assumes "find_usb_partition c s = Return (Some dev) s" "dev \<noteq> []" "last_device s = Some dev"
  shows "poll c s = Return () s"
  using assms by (simp add: poll_def and_then_def truthy_def)

lemma poll_absent:
  assumes "find_usb_partition c s = Return None s" "last_device s = Some dev" "dev \<noteq> []" "log_ok c"
  shows "poll c s = Return () (s\<lparr>last_device := None, watch_log := watch_log s @ [Removed dev]\<rparr>)"
  using assms by (simp add: poll_def and_then_def truthy_def wlog_def)

lemma main_loop_append:
  "main_loop (xs @ ys) s = and_then (main_loop xs s) (\<lambda>u s'. main_loop ys s')"
  by (induction xs arbitrary: s) (auto simp: and_then_def split: result.splits)

lemma main_loop_same:
  assumes "\<forall>c\<in>set cs. present dev c" "dev \<noteq> []" "last_device s = Some dev"
  shows "main_loop cs s = Return () s"
  using assms
proof (induction cs)
  case Nil then show ?case by simp
next
  case (Cons c cs)
  from Cons.prems have "find_usb_partition c s = Return (Some dev) s"
    by (simp add: present_find)
  with Cons.prems have "poll c s = Return () s" by (intro poll_same)
  with Cons show ?case by (simp add: and_then_def)
qed

lemma main_loop_insertion:
  assumes "present dev c" "\<forall>c\<in>set cs. present dev c" "dev \<noteq> []" "last_device s \<noteq> Some dev"
    "log_ok c" "handling_succeeds c"
  shows "main_loop (c # cs) s = Return () (handled dev s)"
proof -
  from assms have "poll c s = Return () (handled dev s)"
    by (simp add: poll_new present_find)
  moreover from assms have "main_loop cs (handled dev s) = Return () (handled dev s)"
    by (intro main_loop_same [of cs dev]) (simp_all add: handled_def)
  ultimately show ?thesis by (simp add: and_then_def)
qed

lemma main_loop_absent:
  assumes "absent a" "log_ok a" "dev \<noteq> []"
  shows "main_loop [a] (handled dev s) = Return () (removed dev (handled dev s))"
proof -
  have "poll a (handled dev s)
      = Return () ((handled dev s)\<lparr>last_device := None,
                                   watch_log := watch_log (handled dev s) @ [Removed dev]\<rparr>)"
    using assms by (intro poll_absent absent_find) (simp_all add: handled_def)
  then show ?thesis by (simp add: and_then_def removed_def)
qed

text \<open>
  Claim C3. Let every cycle of an insertion enumerate exactly one removable, unmounted,
  digit-suffixed partition, with device path \<open>dev\<close>, and let the handling of the cycle
  that first sees it go through. Then over the cycles \<open>c1 # cs1\<close> of the insertion,
  however many they are and whatever the commands would answer in the later ones, the
  watcher makes the mount point, mounts \<open>dev\<close>, runs the importer, flushes and
  unmounts exactly once, and records \<open>dev\<close>: while the enumerated path equals the
  recorded one nothing is mounted or imported again. A cycle \<open>a\<close> that enumerates no
  such partition clears the recorded path, and a later insertion \<open>c2 # cs2\<close> of the
  same path is handled again, once.
\<close>

theorem watcher_handles_once_per_insertion:
  assumes "dev \<noteq> []" "last_device s \<noteq> Some dev"
    and "present dev c1" "\<forall>c\<in>set cs1. present dev c" "log_ok c1" "handling_succeeds c1"
    and "absent a" "log_ok a"
    and "present dev c2" "\<forall>c\<in>set cs2. present dev c" "log_ok c2" "handling_succeeds c2"
  shows "main_loop (c1 # cs1) s = Return () (handled dev s)
     \<and> ops (handled dev s) = ops s @ [Mkdir, Mount dev, Run_importer, Flush, Umount]
     \<and> last_device (handled dev s) = Some dev
     \<and> main_loop (c1 # cs1 @ [a]) s = Return () (removed dev (handled dev s))
     \<and> last_device (removed dev (handled dev s)) = None
     \<and> main_loop (c1 # cs1 @ a # c2 # cs2) s
         = Return () (handled dev (removed dev (handled dev s)))
     \<and> ops (handled dev (removed dev (handled dev s)))
         = ops s @ [Mkdir, Mount dev, Run_importer, Flush, Umount]
                 @ [Mkdir, Mount dev, Run_importer, Flush, Umount]"
proof -
  let ?s1 = "handled dev s" and ?s2 = "removed dev (handled dev s)"
  have 1: "main_loop (c1 # cs1) s = Return () ?s1"
    using assms(3,4,1,2,5,6) by (rule main_loop_insertion)
  have 2: "main_loop [a] ?s1 = Return () ?s2"
    using assms(7,8,1) by (rule main_loop_absent)
  have "last_device ?s2 \<noteq> Some dev" by (simp add: removed_def)
  with assms have 3: "main_loop (c2 # cs2) ?s2 = Return () (handled dev ?s2)"
    by (intro main_loop_insertion) simp_all
  have 4: "main_loop (c1 # cs1 @ [a]) s = Return () ?s2"
    using main_loop_append [of "c1 # cs1" "[a]" s] 1 2 by (simp add: and_then_def)
  have "main_loop ((c1 # cs1 @ [a]) @ c2 # cs2) s = Return () (handled dev ?s2)"
    unfolding main_loop_append [of "c1 # cs1 @ [a]"] using 4 3 by (simp add: and_then_def)
  then have 5: "main_loop (c1 # cs1 @ a # c2 # cs2) s = Return () (handled dev ?s2)" by simp
  from 1 4 5 show ?thesis by (simp add: handled_def removed_def)
qed

lemma cycle_example_present: "present (py ''/dev/sda1'') cycle_example"
  by (simp add: present_def cycle_example_def sda_tree_partitions)

lemma cycle_example_ok: "log_ok cycle_example" "handling_succeeds cycle_example"
  by (simp_all add: cycle_example_def handling_succeeds_def)

lemma cycle_empty_absent: "absent cycle_empty" "log_ok cycle_empty"
  by (simp_all add: cycle_empty_def cycle_example_def absent_def)

theorem watcher_handles_once_per_insertion_witness:
  "present (py ''/dev/sda1'') cycle_example \<and> absent cycle_empty
   \<and> handling_succeeds cycle_example
   \<and> main_loop [cycle_example, cycle_example, cycle_example] watcher_start
        = Return () (handled (py ''/dev/sda1'') watcher_start)
   \<and> main_loop [cycle_example, cycle_example, cycle_example, cycle_empty, cycle_example,
                 cycle_example] watcher_start
        = Return () (handled (py ''/dev/sda1'')
            (removed (py ''/dev/sda1'') (handled (py ''/dev/sda1'') watcher_start)))"
proof -
  have d: "py ''/dev/sda1'' \<noteq> []" by (simp add: py_def)
  have l: "last_device watcher_start \<noteq> Some (py ''/dev/sda1'')" by (simp add: watcher_start_def)
  have r1: "\<forall>c\<in>set [cycle_example, cycle_example]. present (py ''/dev/sda1'') c"
    and r2: "\<forall>c\<in>set [cycle_example]. present (py ''/dev/sda1'') c"
    by (simp_all add: cycle_example_present)
  from watcher_handles_once_per_insertion [OF d l cycle_example_present r1 cycle_example_ok
      cycle_empty_absent cycle_example_present r2 cycle_example_ok]
    cycle_example_present cycle_empty_absent cycle_example_ok
  show ?thesis by simp
qed

section \<open>Failures in the handling sequence\<close>








section \<open>The reboot trigger\<close>

lemma check_requested:
  "reboot_requested w \<Longrightarrow> check_reboot_trigger w = Return True w"
  by (auto simp: reboot_requested_def check_reboot_trigger_def exists_def vnode_def read_text_def
        Let_def split: option.splits node.splits)

lemma ensure_requested:
  "reboot_requested w \<Longrightarrow> ensure_reboot_file w = Return () w"
  by (auto simp: reboot_requested_def ensure_reboot_file_def exists_def vnode_def
        split: option.splits node.splits)

lemma handle_requested:
  assumes "reboot_requested w" "usb_writable w" "log_writable w"
  shows "handle_reboot_file w = Return True (rebooted w)"
proof -
  from assms(1) obtain body where t: "reboot_txt w = Some (RegFile body True)" and m: "usb_mount w"
    by (auto simp: reboot_requested_def split: option.splits node.splits)
  show ?thesis
    using assms t m
    by (cases "espeak w"; cases "sync_cmd w"; cases "reboot_cmd w")
       (simp_all add: handle_reboot_file_def ensure_requested check_requested and_then_def
          except_def log_def restore_reboot_file_def write_text_def open_write_def store_def
          usb_writable_def vnode_def set_vnode_def
          speak_def run_def Let_def rebooted_def)
qed

lemma default_lines:
  "splitlines (translate_newlines REBOOT_FILE_DEFAULT) =
     [py ''### Remove the '' @ [34, 8211, 34] @ py '' before Reboot to reboot the soundbox. ###'',
      [8211] @ py '' Reboot'']"
  by (simp add: REBOOT_FILE_DEFAULT_def splitlines_def linebreak_def py_def)

lemma default_not_requested:
  "strip ([8211] @ py '' Reboot'') \<noteq> py ''Reboot''"
  by (simp add: strip_def isspace_def py_def)

lemma armed_no_action:
  assumes "usb_mount w" "reboot_txt w = Some (RegFile REBOOT_FILE_DEFAULT True)"
  shows "handle_reboot_file w = Return False w"
  using assms default_not_requested
  by (simp add: handle_reboot_file_def ensure_reboot_file_def check_reboot_trigger_def exists_def
        vnode_def read_text_def and_then_def default_lines Let_def)

lemma rebooted_armed: "\<not> reboot_requested (rebooted w)"
  using default_not_requested
  by (simp add: reboot_requested_def rebooted_def default_lines)

lemmas reboot_defs =
  handle_reboot_file_def ensure_reboot_file_def check_reboot_trigger_def restore_reboot_file_def
  exists_def vnode_def set_vnode_def read_text_def write_text_def open_write_def store_def
  log_def speak_def run_def and_then_def except_def final_def Let_def

lemma handle_frame:
  "audio_dir (final (handle_reboot_file w)) = audio_dir w
   \<and> library_txt (final (handle_reboot_file w)) = library_txt w
   \<and> add_dir (final (handle_reboot_file w)) = add_dir w"
  by (cases "espeak w"; cases "sync_cmd w"; cases "reboot_cmd w"; cases "volume w")
     (auto simp: reboot_defs split: option.splits node.splits)

lemma handle_requested_result:
  assumes "reboot_requested w"
  shows "handle_reboot_file w \<noteq> Return False w'"
  using assms
  by (cases "espeak w"; cases "sync_cmd w"; cases "reboot_cmd w"; cases "volume w")
     (auto simp: handle_reboot_file_def ensure_requested check_requested and_then_def
        except_def log_def restore_reboot_file_def write_text_def open_write_def store_def
        speak_def run_def Let_def vnode_def set_vnode_def
        split: option.splits node.splits)

lemma handle_requested_returns:
  assumes "reboot_requested w" "log_writable w"
  shows "handle_reboot_file w = Return True (final (handle_reboot_file w))"
  using assms
  by (cases "espeak w"; cases "sync_cmd w"; cases "reboot_cmd w"; cases "volume w")
     (auto simp: handle_reboot_file_def ensure_requested check_requested and_then_def
        except_def log_def restore_reboot_file_def write_text_def open_write_def store_def
        speak_def run_def Let_def final_def vnode_def set_vnode_def
        split: option.splits node.splits)

lemma process_requested:
  assumes "reboot_requested w"
  shows "final (process_usb w) = final (handle_reboot_file w)"
proof (cases "handle_reboot_file w")
  case (Return a w')
  with assms handle_requested_result [of w w'] have "a" by (cases a) auto
  with Return show ?thesis by (simp add: process_usb_def and_then_def final_def)
next
  case (Raise e w')
  then show ?thesis by (simp add: process_usb_def and_then_def final_def)
qed

lemma short_file:
  assumes "usb_mount w" "reboot_txt w = Some (RegFile body r)"
    "length (splitlines (translate_newlines body)) < 2"
  shows "reboot_txt (final (handle_reboot_file w)) = reboot_txt w"
    and "trace (final (handle_reboot_file w)) = trace w"
    and "handle_reboot_file w \<noteq> Return True w'"
    and "r \<Longrightarrow> handle_reboot_file w = Return False w"
  using assms by (auto simp: reboot_defs)

text \<open>
  On a volume that is mounted read-only the rewrite of Reboot.txt fails inside
  \<open>restore_reboot_file\<close>, which logs the error and returns; the handling goes on to
  the reboot command.
\<close>

lemma handle_write_protected:
  assumes "reboot_requested w" "volume w = Read_only" "log_writable w"
  shows "handle_reboot_file w =
           Return True
             (w\<lparr>log_file := log_file w @ [Reboot_trigger_detected, Error_restoring_Reboot, Rebooting_now_msg]
                              @ (if reboot_cmd w = NotStarted then [Reboot_error] else []),
                trace := trace w @ [Ran (Espeak Rebooting_now), Ran Sync, Ran Reboot]\<rparr>)"
proof -
  from assms(1) have m: "usb_mount w"
    by (simp add: reboot_requested_def)
  show ?thesis
    using assms m
    by (cases "espeak w"; cases "sync_cmd w"; cases "reboot_cmd w")
       (simp_all add: handle_reboot_file_def ensure_requested check_requested and_then_def
          except_def log_def restore_reboot_file_def write_text_def open_write_def
          speak_def run_def Let_def)
qed

lemma world_triggered_requested: "reboot_requested world_triggered"
  by (simp add: world_triggered_def world_armed_def reboot_requested_def splitlines_def
        linebreak_def strip_def isspace_def py_def)

lemma world_reboot_fails_requested: "reboot_requested world_reboot_fails"
  using world_triggered_requested
  by (simp add: world_reboot_fails_def reboot_requested_def)

lemma world_write_protected_requested: "reboot_requested world_write_protected"
  using world_triggered_requested
  by (simp add: world_write_protected_def reboot_requested_def)

text \<open>
  Claim C2 says that a set trigger is cleared before the reboot command is issued, so
  that Reboot.txt is armed again after the run whatever the reboot command does, and that
  a failing reboot command is logged. The code's own comment says the same: restore
  first, so that a reboot loop cannot happen. The code does not secure it.
  \<open>restore_reboot_file\<close> catches the error of its write and returns nothing, and
  \<open>handle_reboot_file\<close> goes on without looking: on a write-protected drive, which is
  mounted read-only, the job announces and issues the reboot with the trigger still
  set; Reboot.txt is untouched after the run and asks for the next reboot. And the
  reboot command is run without a look at its exit status: when it exits with status 1
  the job returns normally and the log holds the three lines of every reboot handling,
  none of which reports the failure.
\<close>

theorem reboot_issued_with_trigger_still_set:
  "reboot_requested world_write_protected
   \<and> process_usb world_write_protected
       = Return () (world_write_protected
           \<lparr>log_file := [Reboot_trigger_detected, Error_restoring_Reboot, Rebooting_now_msg],
            trace := [Ran (Espeak Rebooting_now), Ran Sync, Ran Reboot]\<rparr>)
   \<and> reboot_txt (final (process_usb world_write_protected)) = reboot_txt world_write_protected
   \<and> reboot_requested (final (process_usb world_write_protected))
   \<and> reboot_cmd world_reboot_fails = Exited 1
   \<and> process_usb world_reboot_fails = Return () (rebooted world_reboot_fails)
   \<and> log_file (rebooted world_reboot_fails)
        = [Reboot_trigger_detected, Restored_Reboot, Rebooting_now_msg]"
proof -
  have a: "volume world_write_protected = Read_only" "log_writable world_write_protected"
    "reboot_cmd world_write_protected = Exited 0" "log_file world_write_protected = []"
    "trace world_write_protected = []"
    by (simp_all add: world_write_protected_def world_triggered_def world_armed_def)
  have h: "handle_reboot_file world_write_protected
      = Return True (world_write_protected
           \<lparr>log_file := [Reboot_trigger_detected, Error_restoring_Reboot, Rebooting_now_msg],
            trace := [Ran (Espeak Rebooting_now), Ran Sync, Ran Reboot]\<rparr>)"
    using handle_write_protected [OF world_write_protected_requested a(1,2)] a by simp
  then have p: "process_usb world_write_protected
      = Return () (world_write_protected
           \<lparr>log_file := [Reboot_trigger_detected, Error_restoring_Reboot, Rebooting_now_msg],
            trace := [Ran (Espeak Rebooting_now), Ran Sync, Ran Reboot]\<rparr>)"
    by (simp add: process_usb_def and_then_def)
  have q: "reboot_requested (world_write_protected
           \<lparr>log_file := [Reboot_trigger_detected, Error_restoring_Reboot, Rebooting_now_msg],
            trace := [Ran (Espeak Rebooting_now), Ran Sync, Ran Reboot]\<rparr>)"
    using world_write_protected_requested by (simp add: reboot_requested_def)
  have b: "usb_writable world_reboot_fails" "log_writable world_reboot_fails"
    "reboot_cmd world_reboot_fails = Exited 1" "log_file world_reboot_fails = []"
    by (simp_all add: world_reboot_fails_def world_triggered_def world_armed_def usb_writable_def)
  have "handle_reboot_file world_reboot_fails = Return True (rebooted world_reboot_fails)"
    using world_reboot_fails_requested b(1,2) by (rule handle_requested)
  then have r: "process_usb world_reboot_fails = Return () (rebooted world_reboot_fails)"
    by (simp add: process_usb_def and_then_def)
  from p q r b world_write_protected_requested show ?thesis
    by (simp add: final_Return rebooted_def)
qed

text \<open>
  Claim C8. When the reboot trigger fires, the job ends where the reboot handling ends:
  the additions, the deletions and the inventory rewrite do not run, and the content
  store, library.txt and the \<open>Add\<close> directory are what they were, whether the
  handling returned or raised. With a writable log the job returns normally right
  after the handling.
\<close>

theorem reboot_short_circuits_the_job:
  assumes "reboot_requested w"
  shows "final (process_usb w) = final (handle_reboot_file w)
     \<and> audio_dir (final (process_usb w)) = audio_dir w
     \<and> library_txt (final (process_usb w)) = library_txt w
     \<and> add_dir (final (process_usb w)) = add_dir w
     \<and> (log_writable w \<longrightarrow> process_usb w = Return () (final (handle_reboot_file w)))
     \<and> (log_writable w \<and> usb_writable w \<longrightarrow> process_usb w = Return () (rebooted w))"
proof -
  have f: "final (process_usb w) = final (handle_reboot_file w)"
    using assms by (rule process_requested)
  have r: "process_usb w = Return () (final (handle_reboot_file w))" if "log_writable w"
  proof -
    from handle_requested_returns [OF assms that]
    have "handle_reboot_file w = Return True (final (handle_reboot_file w))" .
    then show ?thesis
      unfolding process_usb_def
      by (metis (mono_tags, lifting) and_then_def result.simps(5))
  qed
  have b: "process_usb w = Return () (rebooted w)" if "log_writable w" "usb_writable w"
    using handle_requested [OF assms that(2,1)] by (simp add: process_usb_def and_then_def)
  from f r b handle_frame [of w] show ?thesis by simp
qed

theorem reboot_short_circuits_the_job_witness:
  "reboot_requested world_triggered
   \<and> process_usb world_triggered = Return () (rebooted world_triggered)
   \<and> audio_dir (final (process_usb world_triggered)) = audio_dir world_triggered
   \<and> library_txt (final (process_usb world_triggered)) = Some (RegFile library_example True)
   \<and> add_dir (final (process_usb world_triggered))
        = Some [(py ''new.mp3'', RegFile (py ''audio'') True)]"
proof -
  have a: "usb_writable world_triggered" "log_writable world_triggered"
    "library_txt world_triggered = Some (RegFile library_example True)"
    "add_dir world_triggered = Some [(py ''new.mp3'', RegFile (py ''audio'') True)]"
    by (simp_all add: world_triggered_def world_armed_def usb_writable_def)
  note t = reboot_short_circuits_the_job [OF world_triggered_requested]
  from t a have p: "process_usb world_triggered = Return () (rebooted world_triggered)"
    by blast
  from t have q: "audio_dir (final (process_usb world_triggered)) = audio_dir world_triggered"
    "library_txt (final (process_usb world_triggered)) = library_txt world_triggered"
    "add_dir (final (process_usb world_triggered)) = add_dir world_triggered"
    by blast+
  from world_triggered_requested p q(1) q(2) [unfolded a(3)] q(3) [unfolded a(4)]
  show ?thesis by blast
qed

section \<open>What the job does when no reboot is asked for\<close>























lemma world_short_unlinked_request:
  "parse_deletion_from_library world_short_unlinked
     = Return [py ''/media/usb/Reboot.txt''] world_short_unlinked"
proof -
  have "parse_lines (file_lines (py ''Deletion:'' @ [10] @ py ''/media/usb/Reboot.txt'' @ [10]))
      = [py ''/media/usb/Reboot.txt'']"
    by (simp add: file_lines_def parse_lines_def parse_step_def strip_def
        lower_def startswith_def isspace_def py_def)
  moreover have "usb_mount world_short_unlinked"
    "library_txt world_short_unlinked
       = Some (RegFile (py ''Deletion:'' @ [10] @ py ''/media/usb/Reboot.txt'' @ [10]) True)"
    by (simp_all add: world_short_unlinked_def world_short_def world_armed_def)
  ultimately show ?thesis
    by (simp add: parse_readable)
qed

text \<open>
  The rest of the job does not write Reboot.txt, but it can remove it: \<open>safe_delete\<close>
  joins \<open>AUDIO_DIR\<close> with the requested line, and an absolute path replaces
  \<open>AUDIO_DIR\<close>, so a deletion request that names the path of Reboot.txt unlinks the
  file.
\<close>

lemma deletion_request_unlinks_reboot_file:
  "handle_reboot_file world_short_unlinked = Return False world_short_unlinked
   \<and> safe_delete (py ''/media/usb/Reboot.txt'') world_short_unlinked
       = Return True (world_short_unlinked\<lparr>reboot_txt := None,
            log_file := [Deleted (py ''/media/usb/Reboot.txt'')]\<rparr>)
   \<and> reboot_txt (final (process_usb world_short_unlinked)) = None"
proof -
  have f: "usb_mount world_short_unlinked"
    "reboot_txt world_short_unlinked = Some (RegFile (py ''Reboot'' @ [10]) True)"
    "length (splitlines (translate_newlines (py ''Reboot'' @ [10]))) < 2"
    by (simp_all add: world_short_unlinked_def world_short_def world_armed_def splitlines_def
          linebreak_def py_def)
  have h: "handle_reboot_file world_short_unlinked = Return False world_short_unlinked"
    using short_file(4) [OF f] by simp
  have a: "add_step world_short_unlinked = Return () world_short_unlinked"
    by (simp add: add_step_def world_short_unlinked_def world_short_def world_armed_def)
  have e: "encodable (py ''/media/usb/Reboot.txt'')"
    by (simp add: encodable_def py_def)
  have r: "resolve (py ''/media/usb/Reboot.txt'') w = paths w (py ''/media/usb/Reboot.txt'')" for w
    by (simp add: resolve_def startswith_def py_def)
  have d: "safe_delete (py ''/media/usb/Reboot.txt'') world_short_unlinked
       = Return True (world_short_unlinked\<lparr>reboot_txt := None,
            log_file := [Deleted (py ''/media/usb/Reboot.txt'')]\<rparr>)"
    by (simp add: safe_delete_def r e unlinked_def log_def and_then_def vnode_def set_vnode_def
          world_short_unlinked_def world_short_def world_armed_def)
  have d': "safe_delete (py ''/media/usb/Reboot.txt'')
              (world_short_unlinked\<lparr>log_file := [Requested_deletions [py ''/media/usb/Reboot.txt'']]\<rparr>)
       = Return True (world_short_unlinked\<lparr>reboot_txt := None,
            log_file := [Requested_deletions [py ''/media/usb/Reboot.txt''],
                         Deleted (py ''/media/usb/Reboot.txt'')]\<rparr>)"
    by (simp add: safe_delete_def r e unlinked_def log_def and_then_def vnode_def set_vnode_def
          world_short_unlinked_def world_short_def world_armed_def)
  have l: "log_writable world_short_unlinked" "log_file world_short_unlinked = []"
    "espeak world_short_unlinked = Exited 0" "trace world_short_unlinked = []"
    by (simp_all add: world_short_unlinked_def world_short_def world_armed_def)
  have s: "delete_step world_short_unlinked
      = Return () (world_short_unlinked\<lparr>reboot_txt := None,
            log_file := [Requested_deletions [py ''/media/usb/Reboot.txt''],
                         Deleted (py ''/media/usb/Reboot.txt'')],
            trace := [Ran (Espeak Books_deleted)]\<rparr>)"
    by (simp add: delete_step_def world_short_unlinked_request and_then_def log_def l d'
          speak_def run_def except_def)
  have "reboot_txt (final (write_library_to_usb w)) = reboot_txt w" for w
    by (cases "volume w")
       (auto simp: write_library_to_usb_def list_entries_def open_write_def store_def log_def
          and_then_def except_def final_def vnode_def set_vnode_def Let_def
          split: option.splits node.splits prod.splits bool.splits)
  with h a s have "reboot_txt (final (process_usb world_short_unlinked)) = None"
    by (simp add: process_usb_def and_then_def)
  with h d show ?thesis by simp
qed

section \<open>The additions are not guarded\<close>

text \<open>
  Claim C1 says that \<open>process_usb\<close> returns normally in every state of the volume and
  of the content store, a failing step being logged and skipped. The additions step
  does not do so: \<open>safe_copy\<close> catches nothing and is called outside any \<open>try\<close>. With
  an armed Reboot.txt and an \<open>Add\<close> directory that holds one file which cannot be
  read, the job raises out of \<open>process_usb\<close>; nothing is logged, and neither the
  deletions nor the inventory rewrite run: the world is as it was.
\<close>

theorem process_usb_raises_on_unreadable_file:
  "process_usb world_unreadable_add = Raise PermissionError world_unreadable_add"
proof -
  have "handle_reboot_file world_unreadable_add = Return False world_unreadable_add"
    by (rule armed_no_action) (simp_all add: world_unreadable_add_def world_armed_def)
  moreover have "add_step world_unreadable_add = Raise PermissionError world_unreadable_add"
    by (simp add: world_unreadable_add_def world_armed_def add_step_def is_file_def
          startswith_def safe_copy_def and_then_def py_def)
  ultimately show ?thesis
    by (simp add: process_usb_def and_then_def)
qed

section \<open>The log sink\<close>

lemma escaped_name_not_encodable: "\<not> encodable escaped_name"
  by (simp add: encodable_def escaped_name_def py_def)

lemma world_log_unwritable_requested: "reboot_requested world_log_unwritable"
  using world_triggered_requested
  by (simp add: world_log_unwritable_def reboot_requested_def)

text \<open>
  Claim C9 says that the log sink never raises, whatever the message and the state of
  the log file, so that no error from logging ends the watcher. The code does not
  secure it. Both \<open>log\<close> functions open the file and write with no \<open>try\<close> around it,
  where the announcer \<open>speak\<close>, the other best-effort sink, swallows every exception;
  and the callers log outside their \<open>try\<close> blocks and inside their \<open>except\<close>
  handlers. With a log file that cannot be opened, \<open>log\<close> of the importer raises, and
  a job that finds the reboot trigger set ends with the exception at its first log
  line, Reboot.txt not restored. With a writable log, the line for a copied file whose
  name is not UTF-8 cannot be encoded: the file is copied and the job ends with
  \<open>UnicodeEncodeError\<close>. In the watcher, \<open>log\<close> raises in the same way; \<open>main\<close> ends
  with the exception at its first log line, or later, in the pass in which it wants to
  log that \<open>lsblk\<close> failed.
\<close>

theorem log_errors_end_job_and_watcher:
  "log Updated_library world_log_unwritable = Raise PermissionError world_log_unwritable
   \<and> process_usb world_log_unwritable = Raise PermissionError world_log_unwritable
   \<and> log (Copied escaped_name) world_armed = Raise UnicodeEncodeError world_armed
   \<and> process_usb world_escaped_add
       = Raise UnicodeEncodeError
           (world_escaped_add\<lparr>audio_dir :=
              Some [(py ''b.mp3'', RegFile (py ''bb'') True), (py ''Z.mp3'', RegFile (py ''zz'') True),
                    (py ''.hidden'', RegFile [] True), (py ''series'', SubDir),
                    (escaped_name, RegFile (py ''audio'') True)]\<rparr>)
   \<and> wlog (cycle_example\<lparr>log_ok := False\<rparr>) Watcher_started watcher_start
       = Raise PermissionError watcher_start
   \<and> main (cycle_example\<lparr>log_ok := False\<rparr>) [cycle_example]
       = Raise PermissionError \<lparr>last_device = None, watch_log = [], ops = []\<rparr>
   \<and> main cycle_example [cycle_example\<lparr>lsblk := Lsblk_failed, log_ok := False\<rparr>]
       = Raise PermissionError watcher_start"
proof -
  have u: "\<not> log_writable world_log_unwritable"
    by (simp add: world_log_unwritable_def)
  have a: "log Updated_library world_log_unwritable = Raise PermissionError world_log_unwritable"
    using u by (simp add: log_def)
  have "handle_reboot_file world_log_unwritable = Raise PermissionError world_log_unwritable"
    using u
    by (simp add: handle_reboot_file_def ensure_requested check_requested
          world_log_unwritable_requested and_then_def log_def)
  then have b: "process_usb world_log_unwritable = Raise PermissionError world_log_unwritable"
    by (simp add: process_usb_def and_then_def)
  have c: "log (Copied escaped_name) world_armed = Raise UnicodeEncodeError world_armed"
    by (simp add: log_def escaped_name_not_encodable world_armed_def)
  have "handle_reboot_file world_escaped_add = Return False world_escaped_add"
    by (rule armed_no_action) (simp_all add: world_escaped_add_def world_armed_def)
  moreover have n: "escaped_name \<noteq> py ''b.mp3''" "escaped_name \<noteq> py ''Z.mp3''"
    "escaped_name \<noteq> py ''.hidden''" "escaped_name \<noteq> py ''series''"
    "\<not> startswith escaped_name (py ''.'')" "\<not> 255 < utf8_length escaped_name"
    by (simp_all add: escaped_name_def startswith_def utf8_length_def py_def)
  have "add_step world_escaped_add
       = Raise UnicodeEncodeError
           (world_escaped_add\<lparr>audio_dir :=
              Some [(py ''b.mp3'', RegFile (py ''bb'') True), (py ''Z.mp3'', RegFile (py ''zz'') True),
                    (py ''.hidden'', RegFile [] True), (py ''series'', SubDir),
                    (escaped_name, RegFile (py ''audio'') True)]\<rparr>)"
    using n
    by (simp add: world_escaped_add_def world_armed_def add_step_def is_file_def
          safe_copy_def and_then_def log_def escaped_name_not_encodable)
  ultimately have d: "process_usb world_escaped_add
       = Raise UnicodeEncodeError
           (world_escaped_add\<lparr>audio_dir :=
              Some [(py ''b.mp3'', RegFile (py ''bb'') True), (py ''Z.mp3'', RegFile (py ''zz'') True),
                    (py ''.hidden'', RegFile [] True), (py ''series'', SubDir),
                    (escaped_name, RegFile (py ''audio'') True)]\<rparr>)"
    by (simp add: process_usb_def and_then_def)
  have e: "wlog (cycle_example\<lparr>log_ok := False\<rparr>) Watcher_started watcher_start
       = Raise PermissionError watcher_start"
    "main (cycle_example\<lparr>log_ok := False\<rparr>) [cycle_example]
       = Raise PermissionError \<lparr>last_device = None, watch_log = [], ops = []\<rparr>"
    by (simp_all add: wlog_def main_def and_then_def)
  have f: "main cycle_example [cycle_example\<lparr>lsblk := Lsblk_failed, log_ok := False\<rparr>]
       = Raise PermissionError watcher_start"
    by (simp add: main_def wlog_def and_then_def poll_def find_usb_partition_def
          cycle_example_def watcher_start_def)
  from a b c d e f show ?thesis by simp
qed

section \<open>The inventory rewrite\<close>














end
